theory Spec2Isabelle
  imports Main "HOL-Library.Word"
begin

unbundle bit_operations_syntax

section \<open>Python values, native types and exceptions\<close>

text \<open>
  The exception classes that \<^verbatim>\<open>flytekit/core/type_engine.py\<close> raises or catches.
  \<^verbatim>\<open>TypeTransformerFailedError\<close> is declared as a subclass of \<^verbatim>\<open>TypeError\<close>,
  \<^verbatim>\<open>AssertionError\<close> and \<^verbatim>\<open>ValueError\<close>; \<^verbatim>\<open>RecursionError\<close> is what the interpreter
  raises when the call depth is used up. An exception is a class and its message.
\<close>

datatype exc =
    TypeTransformerFailedError | ValueError | TypeError | AttributeError | AssertionError
  | RestrictedTypeError | NotImplementedError | RecursionError | KeyError | IndexError | OSError
  | OverflowError | ParseError

type_synonym pyerr = "exc \<times> string"

text \<open>\<open>exc_isinstance e c\<close>: would \<^verbatim>\<open>except c\<close> catch an exception of class \<open>e\<close>?\<close>

definition exc_isinstance :: "exc \<Rightarrow> exc \<Rightarrow> bool" where
  "exc_isinstance e c =
     (e = c \<or> (e = TypeTransformerFailedError \<and> (c = TypeError \<or> c = AssertionError \<or> c = ValueError)))"

text \<open>
  A float is its IEEE-754 binary64 bit pattern. Datetimes and timedeltas are opaque to
  the engine; they are represented by a count of microseconds.
\<close>

type_synonym pyfloat = "64 word"

datatype annotation = FlyteAnnotation string | HashMethod string | OtherAnnotation string

text \<open>
  Native types, as far as the engine inspects them. \<open>TGeneric origin args\<close> is a
  parameterized generic (it has \<^verbatim>\<open>__origin__\<close>), \<open>TAnnotated base anns\<close> is
  \<^verbatim>\<open>Annotated[base, anns...]\<close>, \<open>TNone\<close> is the object \<^verbatim>\<open>None\<close> used where a type is
  expected (it is a key of the registry), \<open>TUnion\<close> is \<^verbatim>\<open>typing.Union\<close>, \<open>TEnum\<close> is
  \<^verbatim>\<open>enum.Enum\<close>, \<open>TMessage\<close> the protobuf \<^verbatim>\<open>Message\<close>. A dataclass has a name and
  its fields in declaration order, each with an optional default value; an enum class has
  a name and its members; a plain class has a name and its proper ancestors (without
  \<^verbatim>\<open>object\<close>). Among the values, a member of an enum class carries the class (name and
  members), its own name and its value; an instance of a dataclass or of a plain class
  carries the class and its attributes; \<open>VFile\<close> is an open file.
\<close>

datatype pytype =
    TInt | TFloat | TBool | TStr | TDatetime | TTimedelta | TNoneType | TNone
  | TList | TDict | TUnion | TTextIO | TBinaryIO | TEnum | TMessage
  | TTuple | TTypingTuple | TNamedTuple | TObject
  | TGeneric pytype "pytype list"
  | TAnnotated pytype "annotation list"
  | TDataclass string "field list"
  | TEnumClass string "(string \<times> pyval) list"
  | TClass string "pytype list"
and field = Field (field_name: string) (field_type: pytype) (field_default: "pyval option")
and pyval =
    VInt int | VFloat pyfloat | VBool bool | VStr string | VDatetime int | VTimedelta int | VNone
  | VList "pyval list"
  | VDict "(pyval \<times> pyval) list"
  | VEnum string "(string \<times> pyval) list" string pyval
  | VDataclass string "field list" "(string \<times> pyval) list"
  | VInstance string "pytype list" "(string \<times> pyval) list"
  | VFile string

text \<open>\<^verbatim>\<open>type(v)\<close>\<close>

fun type_of :: "pyval \<Rightarrow> pytype" where
  "type_of (VInt _) = TInt"
| "type_of (VFloat _) = TFloat"
| "type_of (VBool _) = TBool"
| "type_of (VStr _) = TStr"
| "type_of (VDatetime _) = TDatetime"
| "type_of (VTimedelta _) = TTimedelta"
| "type_of VNone = TNoneType"
| "type_of (VList _) = TList"
| "type_of (VDict _) = TDict"
| "type_of (VEnum n members _ _) = TEnumClass n members"
| "type_of (VDataclass n fs _) = TDataclass n fs"
| "type_of (VInstance n bases _) = TClass n bases"
| "type_of (VFile _) = TClass ''TextIOWrapper'' []"

text \<open>The method resolution order of a class: itself, its ancestors, \<^verbatim>\<open>object\<close>.\<close>

fun py_mro :: "pytype \<Rightarrow> pytype list" where
  "py_mro TObject = [TObject]"
| "py_mro TBool = [TBool, TInt, TObject]"
| "py_mro (TEnumClass n ms) = [TEnumClass n ms, TEnum, TObject]"
| "py_mro (TClass n bases) = TClass n bases # bases @ [TObject]"
| "py_mro t = [t, TObject]"

text \<open>\<^verbatim>\<open>inspect.isclass(t)\<close>: everything but \<^verbatim>\<open>None\<close> and the forms of \<^verbatim>\<open>typing\<close>.\<close>

fun is_class :: "pytype \<Rightarrow> bool" where
  "is_class TNone = False"
| "is_class TUnion = False"
| "is_class TTypingTuple = False"
| "is_class TNamedTuple = False"
| "is_class (TGeneric _ _) = False"
| "is_class (TAnnotated _ _) = False"
| "is_class _ = True"

text \<open>
  The second argument of \<^verbatim>\<open>isinstance\<close> and \<^verbatim>\<open>issubclass\<close> must be a class, else they
  raise \<^verbatim>\<open>TypeError\<close>; \<^verbatim>\<open>typing.Tuple\<close> is accepted and stands for \<^verbatim>\<open>tuple\<close>.
\<close>

definition valid_classinfo :: "pytype \<Rightarrow> bool" where
  "valid_classinfo base_type = (is_class base_type \<or> base_type = TTypingTuple)"

definition issubclass :: "pytype \<Rightarrow> pytype \<Rightarrow> bool" where
  "issubclass t base_type =
     ((if base_type = TTypingTuple then TTuple else base_type) \<in> set (py_mro t))"

definition isinstance :: "pyval \<Rightarrow> pytype \<Rightarrow> bool" where
  "isinstance v t = issubclass (type_of v) t"

text \<open>\<^verbatim>\<open>hasattr(t, "__origin__")\<close>, \<^verbatim>\<open>get_origin(t) is Annotated\<close>, \<^verbatim>\<open>t.__origin__\<close>,
  \<^verbatim>\<open>get_args(t)\<close>, \<^verbatim>\<open>dataclasses.is_dataclass(t)\<close>, \<^verbatim>\<open>t.__name__\<close>.\<close>

fun has_origin :: "pytype \<Rightarrow> bool" where
  "has_origin (TGeneric _ _) = True"
| "has_origin (TAnnotated _ _) = True"
| "has_origin TTypingTuple = True"
| "has_origin _ = False"

fun is_annotated :: "pytype \<Rightarrow> bool" where
  "is_annotated (TAnnotated _ _) = True"
| "is_annotated _ = False"

fun origin_of :: "pytype \<Rightarrow> pytype" where
  "origin_of (TGeneric origin _) = origin"
| "origin_of (TAnnotated base _) = base"
| "origin_of TTypingTuple = TTuple"
| "origin_of t = t"

fun get_args :: "pytype \<Rightarrow> pytype list" where
  "get_args (TGeneric _ args) = args"
| "get_args (TAnnotated base _) = [base]"
| "get_args _ = []"

fun annotations_of :: "pytype \<Rightarrow> annotation list" where
  "annotations_of (TAnnotated _ anns) = anns"
| "annotations_of _ = []"

text \<open>Step 1 of every lookup: \<^verbatim>\<open>if get_origin(t) is Annotated: t = get_args(t)[0]\<close>.\<close>

fun strip_annotated :: "pytype \<Rightarrow> pytype" where
  "strip_annotated (TAnnotated base _) = base"
| "strip_annotated t = t"

fun is_dataclass :: "pytype \<Rightarrow> bool" where
  "is_dataclass (TDataclass _ _) = True"
| "is_dataclass _ = False"

fun dataclass_fields :: "pytype \<Rightarrow> field list" where
  "dataclass_fields (TDataclass _ fs) = fs"
| "dataclass_fields _ = []"

fun type_name :: "pytype \<Rightarrow> string" where
  "type_name TInt = ''int''"
| "type_name TFloat = ''float''"
| "type_name TBool = ''bool''"
| "type_name TStr = ''str''"
| "type_name TDatetime = ''datetime''"
| "type_name TTimedelta = ''timedelta''"
| "type_name TNoneType = ''NoneType''"
| "type_name TNone = ''None''"
| "type_name TList = ''list''"
| "type_name TDict = ''dict''"
| "type_name TUnion = ''Union''"
| "type_name TTextIO = ''TextIO''"
| "type_name TBinaryIO = ''BinaryIO''"
| "type_name TEnum = ''Enum''"
| "type_name TMessage = ''Message''"
| "type_name TTuple = ''tuple''"
| "type_name TTypingTuple = ''Tuple''"
| "type_name TNamedTuple = ''NamedTuple''"
| "type_name TObject = ''object''"
| "type_name (TGeneric origin _) = type_name origin"
| "type_name (TAnnotated base _) = type_name base"
| "type_name (TDataclass n _) = n"
| "type_name (TEnumClass n _) = n"
| "type_name (TClass n _) = n"

section \<open>The wire model: literal types and literals\<close>

text \<open>
  Modelled from the spec: the classes of \<^verbatim>\<open>flytekit.models\<close> (LiteralType, Literal,
  Scalar, Primitive, Blob, Union) are not among the sources. Section 3 of the
  specification gives them: a wire type has one field per variant, each of them optional,
  plus the decorations metadata, structure (the tag) and annotation; a wire value is a
  scalar, a collection or a map, with an optional hash. Two wire types are equal when all
  their fields are, and the round trip through the IDL message that the engine uses as a
  copy (\<^verbatim>\<open>LiteralType.from_flyte_idl(x.to_flyte_idl())\<close>) is the identity.
\<close>

datatype simple_type =
  NONE | INTEGER | FLOAT | STRING | BOOLEAN | DATETIME | DURATION | BINARY | ERROR | STRUCT

datatype blob_dimensionality = SINGLE | MULTIPART

datatype blob_type = BlobType (format: string) (dimensionality: blob_dimensionality)

datatype literal_type = LiteralType
    (simple: "simple_type option")
    (collection_type: "literal_type option")
    (map_value_type: "literal_type option")
    (blob: "blob_type option")
    (enum_type: "pyval list option")
    (union_type: "literal_type list option")
    (structured_dataset_type: "structured_dataset_type option")
    (metadata: "(string \<times> metadata_value) list option")
    (structure_tag: "string option")
    (annotation: "string option")
and structured_dataset_type = StructuredDatasetType
    (sd_format: string)
    (external_schema_type: string)
    (external_schema_bytes: string)
    (columns: "(string \<times> literal_type) list")
and metadata_value = MetaType literal_type | MetaString string

text \<open>\<^verbatim>\<open>LiteralType()\<close> and the keyword constructors the source uses.\<close>

definition empty_type :: literal_type where
  "empty_type = LiteralType None None None None None None None None None None"

definition simple_lt :: "simple_type \<Rightarrow> literal_type" where
  "simple_lt s = LiteralType (Some s) None None None None None None None None None"

definition collection_lt :: "literal_type \<Rightarrow> literal_type" where
  "collection_lt t = LiteralType None (Some t) None None None None None None None None"

definition map_lt :: "literal_type \<Rightarrow> literal_type" where
  "map_lt t = LiteralType None None (Some t) None None None None None None None"

definition blob_lt :: "blob_type \<Rightarrow> literal_type" where
  "blob_lt b = LiteralType None None None (Some b) None None None None None None"

definition enum_lt :: "pyval list \<Rightarrow> literal_type" where
  "enum_lt vs = LiteralType None None None None (Some vs) None None None None None"

definition union_lt :: "literal_type list \<Rightarrow> literal_type" where
  "union_lt vs = LiteralType None None None None None (Some vs) None None None None"

definition structured_dataset_lt :: "structured_dataset_type \<Rightarrow> literal_type" where
  "structured_dataset_lt sd = LiteralType None None None None None None (Some sd) None None None"

fun set_metadata :: "(string \<times> metadata_value) list option \<Rightarrow> literal_type \<Rightarrow> literal_type" where
  "set_metadata m (LiteralType s c mv b e u sd _ st an) = LiteralType s c mv b e u sd m st an"

fun set_structure :: "string option \<Rightarrow> literal_type \<Rightarrow> literal_type" where
  "set_structure st (LiteralType s c mv b e u sd m _ an) = LiteralType s c mv b e u sd m st an"

fun set_annotation :: "string option \<Rightarrow> literal_type \<Rightarrow> literal_type" where
  "set_annotation an (LiteralType s c mv b e u sd m st _) = LiteralType s c mv b e u sd m st an"

datatype primitive = Primitive
    (integer: "int option")
    (float_value: "pyfloat option")
    (string_value: "string option")
    (boolean: "bool option")
    (datetime: "int option")
    (duration: "int option")

datatype blob_value = Blob (blob_metadata: blob_type) (uri: string)

datatype literal = Literal
    (scalar: "scalar option")
    (collection: "literal list option")
    (map_literals: "(string \<times> literal) list option")
    (hash: "string option")
and scalar = Scalar
    (primitive: "primitive option")
    (blob_of: "blob_value option")
    (generic: "pyval option")
    (none_type: "unit option")
    (union_of: "union_value option")
and union_value = Union (union_inner: literal) (stored_type: literal_type)

definition no_primitive :: primitive where
  "no_primitive = Primitive None None None None None None"

definition scalar_literal :: "scalar \<Rightarrow> literal" where
  "scalar_literal s = Literal (Some s) None None None"

definition primitive_literal :: "primitive \<Rightarrow> literal" where
  "primitive_literal p = scalar_literal (Scalar (Some p) None None None None)"

definition blob_literal :: "blob_value \<Rightarrow> literal" where
  "blob_literal b = scalar_literal (Scalar None (Some b) None None None)"

definition generic_literal :: "pyval \<Rightarrow> literal" where
  "generic_literal g = scalar_literal (Scalar None None (Some g) None None)"

definition void_literal :: literal where
  "void_literal = scalar_literal (Scalar None None None (Some ()) None)"

definition union_literal :: "literal \<Rightarrow> literal_type \<Rightarrow> literal" where
  "union_literal v t = scalar_literal (Scalar None None None None (Some (Union v t)))"

definition collection_literal :: "literal list \<Rightarrow> literal" where
  "collection_literal ls = Literal None (Some ls) None None"

definition map_literal :: "(string \<times> literal) list \<Rightarrow> literal" where
  "map_literal m = Literal None None (Some m) None"

fun set_hash :: "string option \<Rightarrow> literal \<Rightarrow> literal" where
  "set_hash h (Literal s c m _) = Literal s c m h"

section \<open>The castability checker\<close>

text \<open>\<^verbatim>\<open>_add_tag_to_type\<close> and \<^verbatim>\<open>_type_essence\<close>\<close>

definition add_tag_to_type :: "literal_type \<Rightarrow> string \<Rightarrow> literal_type" where
  "add_tag_to_type x tag = set_structure (Some tag) x"

definition type_essence :: "literal_type \<Rightarrow> literal_type" where
  "type_essence x =
     (if metadata x \<noteq> None \<or> structure_tag x \<noteq> None \<or> annotation x \<noteq> None
      then set_annotation None (set_structure None (set_metadata None x))
      else x)"

text \<open>
  A component of a wire type is smaller than the type; \<^verbatim>\<open>_are_types_castable\<close> recurses
  on components only.
\<close>

lemma size_collection_type: "collection_type x = Some y \<Longrightarrow> size y < size x"
  by (cases x) simp

lemma size_map_value_type: "map_value_type x = Some y \<Longrightarrow> size y < size x"
  by (cases x) simp

lemma size_union_variant: "union_type x = Some vs \<Longrightarrow> v \<in> set vs \<Longrightarrow> size v < size x"
  by (cases x) (auto simp: less_Suc_eq_le dest!: size_list_estimation'[where f = size, OF _ order_refl])

lemma size_column_type:
  "structured_dataset_type x = Some sd \<Longrightarrow> c \<in> set (columns sd) \<Longrightarrow> size (snd c) < size x"
proof -
  assume sd: "structured_dataset_type x = Some sd" and c: "c \<in> set (columns sd)"
  have "size (snd c) \<le> size_prod (\<lambda>_. 0) size c"
    by (cases c) simp
  also have "\<dots> \<le> size_list (size_prod (\<lambda>_. 0) size) (columns sd)"
    using c by (rule size_list_estimation'[OF _ order_refl])
  also have "\<dots> < size sd"
    by (cases sd) simp
  also have "\<dots> < size x"
    using sd by (cases x) simp
  finally show ?thesis .
qed

function are_types_castable :: "literal_type \<Rightarrow> literal_type \<Rightarrow> bool" where
  "are_types_castable upstream downstream =
    (case collection_type upstream of
       Some uc \<Rightarrow>
         (case collection_type downstream of
            None \<Rightarrow> False
          | Some dc \<Rightarrow> are_types_castable uc dc)
     | None \<Rightarrow>
    (case map_value_type upstream of
       Some um \<Rightarrow>
         (case map_value_type downstream of
            None \<Rightarrow> False
          | Some dm \<Rightarrow> are_types_castable um dm)
     | None \<Rightarrow>
    (case structured_dataset_type upstream of
       Some usdt \<Rightarrow>
         (case structured_dataset_type downstream of
            None \<Rightarrow> False
          | Some dsdt \<Rightarrow>
              if sd_format usdt \<noteq> sd_format dsdt then False
              else if external_schema_type usdt \<noteq> external_schema_type dsdt then False
              else if external_schema_bytes usdt \<noteq> external_schema_bytes dsdt then False
              else if length (columns usdt) \<noteq> length (columns dsdt) then False
              else list_all (\<lambda>(u, d). fst u = fst d \<and> are_types_castable (snd u) (snd d))
                     (zip (columns usdt) (columns dsdt)))
     | None \<Rightarrow>
    (case union_type upstream of
       Some variants \<Rightarrow> list_all (\<lambda>v. are_types_castable v downstream) variants
     | None \<Rightarrow>
         (case union_type downstream of
            Some variants \<Rightarrow> list_ex (\<lambda>v. are_types_castable upstream v) variants
          | None \<Rightarrow> False)
         \<or> (enum_type upstream \<noteq> None \<and> simple downstream = Some STRING)
         \<or> type_essence upstream = type_essence downstream))))"
  by pat_completeness auto
termination
proof (relation "measure (\<lambda>(u, d). size u + size d)", goal_cases)
  case 1
  show ?case by simp
next
  case (2 upstream downstream variants v)
  then show ?case
    using size_union_variant[of downstream variants v] by simp
next
  case (3 upstream downstream variants v)
  then show ?case
    using size_union_variant[of upstream variants v] by simp
next
  case (4 upstream downstream usdt dsdt z u d)
  then have "u \<in> set (columns usdt)" "d \<in> set (columns dsdt)"
    by (auto dest: set_zip_leftD set_zip_rightD)
  with 4 show ?case
    using size_column_type[of upstream usdt u] size_column_type[of downstream dsdt d] by simp
next
  case (5 upstream downstream um dm)
  then show ?case
    using size_map_value_type[of upstream um] size_map_value_type[of downstream dm] by simp
next
  case (6 upstream downstream uc dc)
  then show ?case
    using size_collection_type[of upstream uc] size_collection_type[of downstream dc] by simp
qed

declare are_types_castable.simps [simp del]



lemma castable_no_upstream_rule:
  assumes "collection_type upstream = None" "map_value_type upstream = None"
    and "structured_dataset_type upstream = None" "union_type upstream = None"
  shows "are_types_castable upstream downstream
           = ((case union_type downstream of
                 Some variants \<Rightarrow> \<exists>v \<in> set variants. are_types_castable upstream v
               | None \<Rightarrow> False)
              \<or> (enum_type upstream \<noteq> None \<and> simple downstream = Some STRING)
              \<or> type_essence upstream = type_essence downstream)"
  using assms by (subst are_types_castable.simps) (simp add: list_ex_iff split: option.splits)

section \<open>Transformers and the registry\<close>

text \<open>
  The transformer classes of the source. A \<open>SimpleTransformer\<close> holds its name, its
  python type, its literal type and the two lambdas it was built with; a
  \<open>DataclassTransformer\<close> holds its dataclass and \<^verbatim>\<open>self._transformers\<close>, one
  transformer per field, in field order.
\<close>

datatype transformer =
    SimpleTransformer string pytype literal_type "pyval \<Rightarrow> literal" "literal \<Rightarrow> pyerr + pyval"
  | RestrictedTypeTransformer string pytype
  | DataclassTransformer pytype "(field \<times> transformer) list"
  | ProtobufTransformer
  | FlytePickleTransformer pytype
  | ListTransformer
  | UnionTransformer
  | DictTransformer
  | TextIOTransformer
  | BinaryIOTransformer
  | EnumTransformer

fun name :: "transformer \<Rightarrow> string" where
  "name (SimpleTransformer n _ _ _ _) = n"
| "name (RestrictedTypeTransformer n _) = n"
| "name (DataclassTransformer t _) = ''Dataclass['' @ type_name t @ '']''"
| "name ProtobufTransformer = ''Protobuf-Transformer''"
| "name (FlytePickleTransformer t) = ''Pickled['' @ type_name t @ '']''"
| "name ListTransformer = ''Typed List''"
| "name UnionTransformer = ''Typed Union''"
| "name DictTransformer = ''Typed Dict''"
| "name TextIOTransformer = ''TextIO''"
| "name BinaryIOTransformer = ''BinaryIO''"
| "name EnumTransformer = ''DefaultEnumTransformer''"

fun python_type_of :: "transformer \<Rightarrow> pytype" where
  "python_type_of (SimpleTransformer _ t _ _ _) = t"
| "python_type_of (RestrictedTypeTransformer _ t) = t"
| "python_type_of (DataclassTransformer t _) = t"
| "python_type_of ProtobufTransformer = TMessage"
| "python_type_of (FlytePickleTransformer t) = t"
| "python_type_of ListTransformer = TList"
| "python_type_of UnionTransformer = TUnion"
| "python_type_of DictTransformer = TDict"
| "python_type_of TextIOTransformer = TTextIO"
| "python_type_of BinaryIOTransformer = TBinaryIO"
| "python_type_of EnumTransformer = TEnum"

text \<open>Every constructor of the source passes or defaults \<^verbatim>\<open>enable_type_assertions=True\<close>.\<close>

definition type_assertions_enabled :: "transformer \<Rightarrow> bool" where
  "type_assertions_enabled tr = True"

text \<open>
  The state the engine works on: \<^verbatim>\<open>TypeEngine._REGISTRY\<close> (a dict, so an association
  list in insertion order), \<^verbatim>\<open>TypeEngine._RESTRICTED_TYPES\<close>, and what the context's
  file access and \<^verbatim>\<open>open\<close> read and write: the objects stored under each path, and
  the number of random paths handed out so far. \<open>hash_methods\<close> gives the function
  behind each \<^verbatim>\<open>HashMethod\<close> annotation.
\<close>

record engine =
  registry :: "(pytype \<times> transformer) list"
  restricted_types :: "pytype list"
  storage :: "(string \<times> pyval) list"
  paths_issued :: nat
  hash_methods :: "string \<Rightarrow> pyval \<Rightarrow> string"

text \<open>
  A call returns a value or raises, and leaves the state as it is at that moment: what
  was registered before an exception stays registered.
\<close>

type_synonym 'a run = "engine \<Rightarrow> (pyerr + 'a) \<times> engine"

definition ret :: "'a \<Rightarrow> 'a run" where
  "ret x s = (Inr x, s)"

definition raise :: "exc \<Rightarrow> string \<Rightarrow> 'a run" where
  "raise e msg s = (Inl (e, msg), s)"

definition and_then :: "'a run \<Rightarrow> ('a \<Rightarrow> 'b run) \<Rightarrow> 'b run" where
  "and_then m f s = (case m s of (Inl e, s') \<Rightarrow> (Inl e, s') | (Inr x, s') \<Rightarrow> f x s')"

text \<open>\<^verbatim>\<open>try: m  except (classes): handler\<close>\<close>

definition try_except :: "'a run \<Rightarrow> exc list \<Rightarrow> (pyerr \<Rightarrow> 'a run) \<Rightarrow> 'a run" where
  "try_except m classes handler s =
     (case m s of
        (Inl e, s') \<Rightarrow>
          if \<exists>c \<in> set classes. exc_isinstance (fst e) c then handler e s' else (Inl e, s')
      | (Inr x, s') \<Rightarrow> (Inr x, s'))"

text \<open>\<^verbatim>\<open>try: m  except Exception: handler\<close>\<close>

definition try_except_all :: "'a run \<Rightarrow> (pyerr \<Rightarrow> 'a run) \<Rightarrow> 'a run" where
  "try_except_all m handler s =
     (case m s of (Inl e, s') \<Rightarrow> handler e s' | (Inr x, s') \<Rightarrow> (Inr x, s'))"

text \<open>\<^verbatim>\<open>d[k] = v\<close> on a dict: an existing key keeps its place, a new one goes last.\<close>

fun dict_set :: "('k \<times> 'v) list \<Rightarrow> 'k \<Rightarrow> 'v \<Rightarrow> ('k \<times> 'v) list" where
  "dict_set [] k v = [(k, v)]"
| "dict_set ((k', v') # d) k v = (if k' = k then (k, v) # d else (k', v') # dict_set d k v)"

definition set_registry :: "pytype \<Rightarrow> transformer \<Rightarrow> engine \<Rightarrow> engine" where
  "set_registry t tr s = s\<lparr>registry := dict_set (registry s) t tr\<rparr>"

subsection \<open>Registration\<close>

text \<open>\<^verbatim>\<open>TypeEngine.register\<close>: the loop over the transformer's type and the additional ones.\<close>

fun register_types :: "transformer \<Rightarrow> pytype list \<Rightarrow> unit run" where
  "register_types tr [] s = (Inr (), s)"
| "register_types tr (t # ts) s =
     (if map_of (registry s) t \<noteq> None
      then (Inl (ValueError, ''Transformer for type is already registered.''), s)
      else register_types tr ts (set_registry t tr s))"

definition register :: "transformer \<Rightarrow> pytype list \<Rightarrow> unit run" where
  "register tr additional_types = register_types tr (python_type_of tr # additional_types)"

definition register_restricted_type :: "string \<Rightarrow> pytype \<Rightarrow> unit run" where
  "register_restricted_type n t s =
     register (RestrictedTypeTransformer n t) [] (s\<lparr>restricted_types := restricted_types s @ [t]\<rparr>)"

definition register_additional_type :: "transformer \<Rightarrow> pytype \<Rightarrow> bool \<Rightarrow> unit run" where
  "register_additional_type tr additional_type override s =
     (if map_of (registry s) additional_type = None \<or> override
      then (Inr (), set_registry additional_type tr s)
      else (Inr (), s))"

subsection \<open>The lookup\<close>

text \<open>
  Step 4 of \<^verbatim>\<open>get_transformer\<close> asks, for a registered key \<open>base_type\<close>,
  \<^verbatim>\<open>isinstance(python_type, base_type) or (inspect.isclass(python_type) and
  issubclass(python_type, base_type))\<close>, and treats a \<^verbatim>\<open>TypeError\<close> as no match.
  \<open>step4_match\<close> is \<open>None\<close> where the interpreter raises \<^verbatim>\<open>TypeError\<close> (the key is
  not a class). The queried type, taken as an object, is an instance of \<^verbatim>\<open>object\<close>, and
  \<^verbatim>\<open>None\<close> is an instance of \<^verbatim>\<open>NoneType\<close>; \<^verbatim>\<open>typing.Tuple\<close> stands for \<^verbatim>\<open>tuple\<close>.
\<close>

definition step4_match :: "pytype \<Rightarrow> pytype \<Rightarrow> bool option" where
  "step4_match python_type base_type =
     (if \<not> valid_classinfo base_type then None
      else Some (base_type = TObject \<or> (python_type = TNone \<and> base_type = TNoneType)
                 \<or> (is_class python_type \<and> issubclass python_type base_type)))"

fun find_base_type :: "pytype \<Rightarrow> pytype list \<Rightarrow> pytype option" where
  "find_base_type python_type [] = None"
| "find_base_type python_type (base_type # keys) =
     (if base_type = TNone then find_base_type python_type keys
      else if step4_match python_type base_type = Some True then Some base_type
      else find_base_type python_type keys)"

definition generic_not_supported :: pyerr where
  "generic_not_supported = (ValueError, ''Generic Type not supported currently in Flytekit.'')"

lemma size_strip_annotated: "size (strip_annotated t) \<le> size t"
  by (cases t) simp_all

lemma size_annotated_arg: "is_annotated t \<Longrightarrow> size (hd (get_args t)) < size t"
  by (cases t) simp_all

lemma size_dataclass_fields: "is_dataclass t \<Longrightarrow> size_list size (dataclass_fields t) < size t"
  by (cases t) simp_all

text \<open>
  \<^verbatim>\<open>TypeEngine.get_transformer\<close>. \<open>field_transformers\<close> is the dict comprehension of
  \<^verbatim>\<open>DataclassTransformer.__init__\<close>, which looks up the transformer of every field.
\<close>

function get_transformer :: "pytype \<Rightarrow> (transformer) run"
  and field_transformers :: "field list \<Rightarrow> ((field \<times> transformer) list) run"
where
  "get_transformer python_type s =
     (let python_type = strip_annotated python_type in
      case map_of (registry s) python_type of
        Some tr \<Rightarrow> (Inr tr, s)
      | None \<Rightarrow>
          if has_origin python_type then
            (if is_annotated python_type then get_transformer (hd (get_args python_type)) s
             else
               (case map_of (registry s) (origin_of python_type) of
                  Some tr \<Rightarrow> (Inr tr, s)
                | None \<Rightarrow> (Inl generic_not_supported, s)))
          else if is_dataclass python_type then
            (case field_transformers (dataclass_fields python_type) s of
               (Inl e, s') \<Rightarrow> (Inl e, s')
             | (Inr fts, s') \<Rightarrow>
                 (Inr (DataclassTransformer python_type fts),
                  set_registry python_type (DataclassTransformer python_type fts) s'))
          else
            (case find_base_type python_type (map fst (registry s)) of
               Some base_type \<Rightarrow>
                 (case map_of (registry s) base_type of
                    Some tr \<Rightarrow> (Inr tr, s)
                  | None \<Rightarrow> (Inl (KeyError, ''base_type''), s))
             | None \<Rightarrow>
                 (Inr (FlytePickleTransformer python_type),
                  set_registry python_type (FlytePickleTransformer python_type) s)))"
| "field_transformers [] s = (Inr [], s)"
| "field_transformers (f # fs) s =
     (case get_transformer (field_type f) s of
        (Inl e, s') \<Rightarrow> (Inl e, s')
      | (Inr tr, s') \<Rightarrow>
          (case field_transformers fs s' of
             (Inl e, s'') \<Rightarrow> (Inl e, s'')
           | (Inr fts, s'') \<Rightarrow> (Inr ((f, tr) # fts), s'')))"
  by pat_completeness auto
termination
proof (relation "measure (\<lambda>x. case x of Inl (t, s) \<Rightarrow> size t | Inr (fs, s) \<Rightarrow> size_list size fs)",
    goal_cases)
  case 1
  show ?case by simp
next
  case (2 python_type s x)
  then show ?case
    using size_strip_annotated[of python_type] size_annotated_arg[of x] by simp
next
  case (3 python_type s x)
  then show ?case
    using size_strip_annotated[of python_type] size_dataclass_fields[of x] by simp
next
  case (4 f fs s)
  show ?case by (cases f) simp
next
  case (5 f fs s)
  show ?case by simp
qed

declare get_transformer.simps [simp del]

section \<open>The built-in simple transformers\<close>

text \<open>
  \<^verbatim>\<open>float(i)\<close> on an integer: the nearest binary64 value, ties to even;
  \<^verbatim>\<open>OverflowError\<close> beyond the range.
\<close>

fun bit_length :: "nat \<Rightarrow> nat" where
  "bit_length n = (if n = 0 then 0 else Suc (bit_length (n div 2)))"

declare bit_length.simps [simp del]

definition float_of_int :: "int \<Rightarrow> pyerr + pyfloat" where
  "float_of_int i =
     (let n = nat \<bar>i\<bar>;
          sign = (if i < 0 then 2 ^ 63 else 0 :: nat);
          e = bit_length n - 1;
          q0 = (if e \<le> 52 then n * 2 ^ (52 - e) else n div 2 ^ (e - 52));
          r = (if e \<le> 52 then 0 else n mod 2 ^ (e - 52));
          half = (if e \<le> 52 then 1 else 2 ^ (e - 53));
          q1 = (if r > half \<or> (r = half \<and> odd q0) then q0 + 1 else q0);
          q = (if q1 = 2 ^ 53 then 2 ^ 52 else q1);
          e' = (if q1 = 2 ^ 53 then e + 1 else e)
      in if n = 0 then Inr 0
         else if e' > 1023 then Inl (OverflowError, ''int too large to convert to float'')
         else Inr (of_nat (sign + (e' + 1023) * 2 ^ 52 + (q - 2 ^ 52))))"

text \<open>Reading \<^verbatim>\<open>lv.scalar\<close> and \<^verbatim>\<open>lv.scalar.primitive\<close>; an attribute of \<^verbatim>\<open>None\<close> raises.\<close>

definition none_has_no_attribute :: pyerr where
  "none_has_no_attribute = (AttributeError, ''NoneType object has no attribute'')"

definition scalar_attr :: "literal \<Rightarrow> pyerr + scalar" where
  "scalar_attr lv = (case scalar lv of None \<Rightarrow> Inl none_has_no_attribute | Some sc \<Rightarrow> Inr sc)"

definition primitive_attr :: "literal \<Rightarrow> pyerr + primitive" where
  "primitive_attr lv =
     (case scalar_attr lv of
        Inl e \<Rightarrow> Inl e
      | Inr sc \<Rightarrow> (case primitive sc of None \<Rightarrow> Inl none_has_no_attribute | Some p \<Rightarrow> Inr p))"

text \<open>A field of a primitive as a Python value: \<^verbatim>\<open>None\<close> when it is not set.\<close>

definition opt_val :: "('a \<Rightarrow> pyval) \<Rightarrow> 'a option \<Rightarrow> pyval" where
  "opt_val mk x = (case x of None \<Rightarrow> VNone | Some a \<Rightarrow> mk a)"

fun int_payload :: "pyval \<Rightarrow> int option" where
  "int_payload (VInt i) = Some i" | "int_payload _ = None"

fun float_payload :: "pyval \<Rightarrow> pyfloat option" where
  "float_payload (VFloat f) = Some f" | "float_payload _ = None"

fun bool_payload :: "pyval \<Rightarrow> bool option" where
  "bool_payload (VBool b) = Some b" | "bool_payload _ = None"

fun str_payload :: "pyval \<Rightarrow> string option" where
  "str_payload (VStr x) = Some x" | "str_payload _ = None"

fun datetime_payload :: "pyval \<Rightarrow> int option" where
  "datetime_payload (VDatetime d) = Some d" | "datetime_payload _ = None"

fun timedelta_payload :: "pyval \<Rightarrow> int option" where
  "timedelta_payload (VTimedelta d) = Some d" | "timedelta_payload _ = None"

text \<open>\<^verbatim>\<open>_check_and_covert_float\<close> and \<^verbatim>\<open>_check_and_convert_void\<close>\<close>

definition check_and_covert_float :: "literal \<Rightarrow> pyerr + pyval" where
  "check_and_covert_float lv =
     (case primitive_attr lv of
        Inl e \<Rightarrow> Inl e
      | Inr p \<Rightarrow>
          (case float_value p of
             Some f \<Rightarrow> Inr (VFloat f)
           | None \<Rightarrow>
               (case integer p of
                  Some i \<Rightarrow> (case float_of_int i of Inl e \<Rightarrow> Inl e | Inr f \<Rightarrow> Inr (VFloat f))
                | None \<Rightarrow> Inl (TypeTransformerFailedError, ''Cannot convert literal to float''))))"

definition check_and_convert_void :: "literal \<Rightarrow> pyerr + pyval" where
  "check_and_convert_void lv =
     (case scalar_attr lv of
        Inl e \<Rightarrow> Inl e
      | Inr sc \<Rightarrow>
          (case none_type sc of
             None \<Rightarrow> Inl (TypeTransformerFailedError, ''Cannot conver literal to None'')
           | Some _ \<Rightarrow> Inr VNone))"

text \<open>The seven simple transformers of \<^verbatim>\<open>_register_default_type_transformers\<close>.\<close>

definition read_primitive :: "(primitive \<Rightarrow> pyval) \<Rightarrow> literal \<Rightarrow> pyerr + pyval" where
  "read_primitive get lv = (case primitive_attr lv of Inl e \<Rightarrow> Inl e | Inr p \<Rightarrow> Inr (get p))"

definition int_transformer :: transformer where
  "int_transformer = SimpleTransformer ''int'' TInt (simple_lt INTEGER)
     (\<lambda>x. primitive_literal (Primitive (int_payload x) None None None None None))
     (read_primitive (\<lambda>p. opt_val VInt (integer p)))"

definition float_transformer :: transformer where
  "float_transformer = SimpleTransformer ''float'' TFloat (simple_lt FLOAT)
     (\<lambda>x. primitive_literal (Primitive None (float_payload x) None None None None))
     check_and_covert_float"

definition bool_transformer :: transformer where
  "bool_transformer = SimpleTransformer ''bool'' TBool (simple_lt BOOLEAN)
     (\<lambda>x. primitive_literal (Primitive None None None (bool_payload x) None None))
     (read_primitive (\<lambda>p. opt_val VBool (boolean p)))"

definition str_transformer :: transformer where
  "str_transformer = SimpleTransformer ''str'' TStr (simple_lt STRING)
     (\<lambda>x. primitive_literal (Primitive None None (str_payload x) None None None))
     (read_primitive (\<lambda>p. opt_val VStr (string_value p)))"

definition datetime_transformer :: transformer where
  "datetime_transformer = SimpleTransformer ''datetime'' TDatetime (simple_lt DATETIME)
     (\<lambda>x. primitive_literal (Primitive None None None None (datetime_payload x) None))
     (read_primitive (\<lambda>p. opt_val VDatetime (datetime p)))"

definition timedelta_transformer :: transformer where
  "timedelta_transformer = SimpleTransformer ''timedelta'' TTimedelta (simple_lt DURATION)
     (\<lambda>x. primitive_literal (Primitive None None None None None (timedelta_payload x)))
     (read_primitive (\<lambda>p. opt_val VTimedelta (duration p)))"

definition none_transformer :: transformer where
  "none_transformer = SimpleTransformer ''none'' TNoneType (simple_lt NONE)
     (\<lambda>x. void_literal)
     check_and_convert_void"

text \<open>\<^verbatim>\<open>_register_default_type_transformers\<close>, run once when the module is loaded.\<close>

definition register_default_type_transformers :: "unit run" where
  "register_default_type_transformers =
     and_then (register int_transformer []) (\<lambda>_.
     and_then (register float_transformer []) (\<lambda>_.
     and_then (register bool_transformer []) (\<lambda>_.
     and_then (register str_transformer []) (\<lambda>_.
     and_then (register datetime_transformer []) (\<lambda>_.
     and_then (register timedelta_transformer []) (\<lambda>_.
     and_then (register none_transformer [TNone]) (\<lambda>_.
     and_then (register ListTransformer []) (\<lambda>_.
     and_then (register UnionTransformer []) (\<lambda>_.
     and_then (register DictTransformer []) (\<lambda>_.
     and_then (register TextIOTransformer []) (\<lambda>_.
     and_then (register BinaryIOTransformer []) (\<lambda>_.
     and_then (register EnumTransformer []) (\<lambda>_.
     and_then (register ProtobufTransformer []) (\<lambda>_.
     and_then (register_restricted_type ''non typed tuple'' TTuple) (\<lambda>_.
     and_then (register_restricted_type ''non typed tuple'' TTypingTuple) (\<lambda>_.
     register_restricted_type ''named tuple'' TNamedTuple))))))))))))))))"

definition empty_engine :: engine where
  "empty_engine = \<lparr>registry = [], restricted_types = [], storage = [], paths_issued = 0,
     hash_methods = (\<lambda>_ _. [])\<rparr>"

definition initial_engine :: engine where
  "initial_engine = snd (register_default_type_transformers empty_engine)"

definition default_registry :: "(pytype \<times> transformer) list" where
  "default_registry =
     [(TInt, int_transformer), (TFloat, float_transformer), (TBool, bool_transformer),
      (TStr, str_transformer), (TDatetime, datetime_transformer),
      (TTimedelta, timedelta_transformer), (TNoneType, none_transformer),
      (TNone, none_transformer), (TList, ListTransformer), (TUnion, UnionTransformer),
      (TDict, DictTransformer), (TTextIO, TextIOTransformer), (TBinaryIO, BinaryIOTransformer),
      (TEnum, EnumTransformer), (TMessage, ProtobufTransformer),
      (TTuple, RestrictedTypeTransformer ''non typed tuple'' TTuple),
      (TTypingTuple, RestrictedTypeTransformer ''non typed tuple'' TTypingTuple),
      (TNamedTuple, RestrictedTypeTransformer ''named tuple'' TNamedTuple)]"

lemma python_type_of_simple [simp]:
  "python_type_of int_transformer = TInt" "python_type_of float_transformer = TFloat"
  "python_type_of bool_transformer = TBool" "python_type_of str_transformer = TStr"
  "python_type_of datetime_transformer = TDatetime"
  "python_type_of timedelta_transformer = TTimedelta"
  "python_type_of none_transformer = TNoneType"
  by (simp_all add: int_transformer_def float_transformer_def bool_transformer_def
      str_transformer_def datetime_transformer_def timedelta_transformer_def none_transformer_def)

lemma initial_engine_eq:
  "initial_engine = \<lparr>registry = default_registry,
     restricted_types = [TTuple, TTypingTuple, TNamedTuple], storage = [], paths_issued = 0,
     hash_methods = (\<lambda>_ _. [])\<rparr>"
  by (simp add: initial_engine_def register_default_type_transformers_def and_then_def
      register_def register_restricted_type_def set_registry_def empty_engine_def
      default_registry_def)

lemma registry_initial_engine [simp]: "registry initial_engine = default_registry"
  by (simp add: initial_engine_eq)

section \<open>Literal types of native types\<close>

text \<open>
  The conversions call each other through the registry, so their nesting is bounded only
  by the interpreter's recursion limit. Each of them takes the call depth that is left
  and raises \<^verbatim>\<open>RecursionError\<close> when it is used up, as the interpreter does. The body of
  a method is written once, with the methods it calls passed in; the method itself is the
  body iterated over the depth.
\<close>

definition recursion_error :: pyerr where
  "recursion_error = (RecursionError, ''maximum recursion depth exceeded'')"

definition lift :: "pyerr + 'a \<Rightarrow> 'a run" where
  "lift r s = (r, s)"

text \<open>Modelled from the spec: \<^verbatim>\<open>tag_from_type\<close> of \<^verbatim>\<open>flytekit.core.type_helpers\<close> is not
  among the sources; the tag is the fully-qualified name of the type.\<close>

definition tag_from_type :: "pytype \<Rightarrow> string" where
  "tag_from_type t = type_name t"

text \<open>\<^verbatim>\<open>ListTransformer.get_sub_type\<close>\<close>

fun get_sub_type :: "pytype \<Rightarrow> pyerr + pytype" where
  "get_sub_type (TAnnotated base _) = get_sub_type base"
| "get_sub_type (TGeneric origin args) =
     (case args of
        a # _ \<Rightarrow>
          if origin = TList then Inr a
          else Inl (ValueError, ''Only generic univariate typing.List[T] type is supported.'')
      | [] \<Rightarrow> Inl (ValueError, ''Only generic univariate typing.List[T] type is supported.''))"
| "get_sub_type _ = Inl (ValueError, ''Only generic univariate typing.List[T] type is supported.'')"

text \<open>
  \<^verbatim>\<open>DictTransformer.get_dict_types\<close>: the arguments of \<^verbatim>\<open>Dict[...]\<close>, or \<open>None\<close> for the
  pair \<^verbatim>\<open>(None, None)\<close>.
\<close>

definition get_dict_types :: "pytype \<Rightarrow> pyerr + pytype list option" where
  "get_dict_types t =
     (if has_origin t then
        (if is_annotated t
         then Inl (ValueError, ''Flytekit does not currently have support for FlyteAnnotations applied to dicts.'')
         else if origin_of t = TDict then Inr (Some (get_args t))
         else Inr None)
      else Inr None)"

text \<open>The loop of \<^verbatim>\<open>TypeEngine.to_literal_type\<close> over the annotations.\<close>

fun flyte_annotation_data :: "annotation list \<Rightarrow> string option \<Rightarrow> pyerr + string option" where
  "flyte_annotation_data [] data = Inr data"
| "flyte_annotation_data (FlyteAnnotation d # xs) data =
     (if data \<noteq> None
      then Inl (ValueError, ''More than one FlyteAnnotation used within typehint.'')
      else flyte_annotation_data xs (Some d))"
| "flyte_annotation_data (_ # xs) data = flyte_annotation_data xs data"

text \<open>\<^verbatim>\<open>TypeEngine.to_literal_type\<close>, given the method \<^verbatim>\<open>get_literal_type\<close> of transformers.\<close>

definition to_literal_type_with ::
  "(transformer \<Rightarrow> pytype \<Rightarrow> literal_type run) \<Rightarrow> pytype \<Rightarrow> literal_type run" where
  "to_literal_type_with get_literal_type python_type =
     and_then (get_transformer python_type) (\<lambda>transformer.
     and_then (get_literal_type transformer python_type) (\<lambda>res.
     and_then (lift (flyte_annotation_data (annotations_of python_type) None)) (\<lambda>data.
       case data of
         None \<Rightarrow> ret res
       | Some d \<Rightarrow> ret (set_annotation (Some d) res))))"

text \<open>The two comprehensions of \<^verbatim>\<open>UnionTransformer.get_literal_type\<close>.\<close>

fun get_transformers :: "pytype list \<Rightarrow> ((transformer \<times> pytype) list) run" where
  "get_transformers [] = ret []"
| "get_transformers (x # xs) =
     and_then (get_transformer x) (\<lambda>t.
     and_then (get_transformers xs) (\<lambda>rest. ret ((t, x) # rest)))"

fun union_variants ::
  "(transformer \<Rightarrow> pytype \<Rightarrow> literal_type run) \<Rightarrow> (transformer \<times> pytype) list
     \<Rightarrow> (literal_type list) run" where
  "union_variants get_literal_type [] = ret []"
| "union_variants get_literal_type ((t, x) # pairs) =
     and_then (to_literal_type_with get_literal_type x) (\<lambda>lt.
     and_then (union_variants get_literal_type pairs) (\<lambda>rest.
       ret (add_tag_to_type lt (name t) # rest)))"

text \<open>The comprehension of \<^verbatim>\<open>DataclassTransformer.get_literal_type\<close>; the names of the
  fields of a dataclass are distinct.\<close>

fun dataclass_subtypes ::
  "(transformer \<Rightarrow> pytype \<Rightarrow> literal_type run) \<Rightarrow> (field \<times> transformer) list
     \<Rightarrow> ((string \<times> metadata_value) list) run" where
  "dataclass_subtypes get_literal_type [] = ret []"
| "dataclass_subtypes get_literal_type ((f, transformer) # fts) =
     and_then (get_literal_type transformer (field_type f)) (\<lambda>lt.
     and_then (dataclass_subtypes get_literal_type fts) (\<lambda>rest.
       ret ((field_name f, MetaType lt) # rest)))"

text \<open>\<^verbatim>\<open>[v.value for v in t]\<close> in \<^verbatim>\<open>EnumTransformer.get_literal_type\<close>.\<close>

fun enum_values :: "pytype \<Rightarrow> pyerr + pyval list" where
  "enum_values (TEnumClass _ members) = Inr (map snd members)"
| "enum_values TEnum = Inr []"
| "enum_values _ = Inl (TypeError, ''type object is not iterable'')"

definition python_pickle_format :: string where
  "python_pickle_format = ''PythonPickle''"

text \<open>The method \<^verbatim>\<open>get_literal_type\<close> of each transformer class.\<close>

fun get_literal_type_body ::
  "(transformer \<Rightarrow> pytype \<Rightarrow> literal_type run) \<Rightarrow> transformer \<Rightarrow> pytype \<Rightarrow> literal_type run"
where
  "get_literal_type_body self (SimpleTransformer _ _ lt _ _) t = ret lt"
| "get_literal_type_body self (RestrictedTypeTransformer _ _) t =
     raise RestrictedTypeError ''Transformer for type is restricted currently''"
| "get_literal_type_body self (DataclassTransformer _ transformers) t =
     and_then (dataclass_subtypes self transformers) (\<lambda>subtypes.
       ret (set_structure (Some (tag_from_type t))
              (set_metadata (Some subtypes) (map_lt empty_type))))"
| "get_literal_type_body self ProtobufTransformer t =
     ret (set_metadata (Some [(''pb_type'', MetaString (tag_from_type t))]) (simple_lt STRUCT))"
| "get_literal_type_body self (FlytePickleTransformer _) t =
     ret (blob_lt (BlobType python_pickle_format SINGLE))"
| "get_literal_type_body self ListTransformer t =
     try_except_all
       (and_then (lift (get_sub_type t)) (\<lambda>st.
        and_then (to_literal_type_with self st) (\<lambda>sub_type.
          ret (collection_lt sub_type))))
       (\<lambda>e. raise ValueError ''Type of Generic List type is not supported'')"
| "get_literal_type_body self UnionTransformer t =
     try_except_all
       (and_then (get_transformers (get_args (strip_annotated t))) (\<lambda>pairs.
        and_then (union_variants self pairs) (\<lambda>variants.
          ret (union_lt variants))))
       (\<lambda>e. raise ValueError ''Type of Generic Union type is not supported'')"
| "get_literal_type_body self DictTransformer t =
     and_then (lift (get_dict_types t)) (\<lambda>tp.
       case tp of
         Some (k # rest) \<Rightarrow>
           if k = TStr then
             try_except_all
               (case rest of
                  [] \<Rightarrow> raise IndexError ''tuple index out of range''
                | v # _ \<Rightarrow>
                    and_then (to_literal_type_with self v) (\<lambda>sub_type. ret (map_lt sub_type)))
               (\<lambda>e. raise ValueError ''Type of Generic List type is not supported'')
           else ret (simple_lt STRUCT)
       | Some [] \<Rightarrow> ret (simple_lt STRUCT)
       | None \<Rightarrow> ret (simple_lt STRUCT))"
| "get_literal_type_body self TextIOTransformer t = ret (blob_lt (BlobType ''text/plain'' SINGLE))"
| "get_literal_type_body self BinaryIOTransformer t =
     ret (blob_lt (BlobType ''application/octet-stream'' SINGLE))"
| "get_literal_type_body self EnumTransformer t =
     (if is_annotated t
      then raise ValueError ''Flytekit does not currently have support for FlyteAnnotations applied to enums.''
      else
        and_then (lift (enum_values t)) (\<lambda>values.
          case values of
            [] \<Rightarrow> raise IndexError ''list index out of range''
          | v0 # _ \<Rightarrow>
              if \<not> isinstance v0 TStr
              then raise TypeTransformerFailedError ''Only EnumTypes with value of string are supported''
              else ret (enum_lt values)))"

primrec get_literal_type :: "nat \<Rightarrow> transformer \<Rightarrow> pytype \<Rightarrow> literal_type run" where
  "get_literal_type 0 = (\<lambda>transformer t. lift (Inl recursion_error))"
| "get_literal_type (Suc depth) = get_literal_type_body (get_literal_type depth)"

definition to_literal_type :: "nat \<Rightarrow> pytype \<Rightarrow> literal_type run" where
  "to_literal_type depth = to_literal_type_with (get_literal_type depth)"

section \<open>Encoding: native values to literals\<close>

text \<open>\<^verbatim>\<open>getattr(v, name)\<close> on an object; an enum member has \<^verbatim>\<open>name\<close> and \<^verbatim>\<open>value\<close>.\<close>

definition getattr :: "pyval \<Rightarrow> string \<Rightarrow> pyerr + pyval" where
  "getattr v n =
     (case v of
        VDataclass _ _ attrs \<Rightarrow>
          (case map_of attrs n of
             Some x \<Rightarrow> Inr x
           | None \<Rightarrow> Inl (AttributeError, ''object has no attribute''))
      | VInstance _ _ attrs \<Rightarrow>
          (case map_of attrs n of
             Some x \<Rightarrow> Inr x
           | None \<Rightarrow> Inl (AttributeError, ''object has no attribute''))
      | VEnum _ _ member x \<Rightarrow>
          if n = ''value'' then Inr x
          else if n = ''name'' then Inr (VStr member)
          else Inl (AttributeError, ''object has no attribute'')
      | _ \<Rightarrow> Inl (AttributeError, ''object has no attribute''))"

fun is_dataclass_instance :: "pyval \<Rightarrow> bool" where
  "is_dataclass_instance (VDataclass _ _ _) = True"
| "is_dataclass_instance _ = False"

text \<open>\<^verbatim>\<open>TypeTransformer.assert_type\<close>, the default of the base class.\<close>

definition base_assert_type :: "pytype \<Rightarrow> pyval \<Rightarrow> pyerr + unit" where
  "base_assert_type t v =
     (if has_origin t then Inr ()
      else if \<not> valid_classinfo t then Inl (TypeError, ''isinstance() arg 2 must be a type'')
      else if \<not> isinstance v t
      then Inl (TypeTransformerFailedError, ''Type of Val is not an instance of the type'')
      else Inr ())"

text \<open>
  \<^verbatim>\<open>assert_type\<close> of each transformer class: \<^verbatim>\<open>DataclassTransformer\<close> and
  \<^verbatim>\<open>FlytePickleTransformer\<close> override it, the others inherit the default.
\<close>

fun assert_type :: "transformer \<Rightarrow> pytype \<Rightarrow> pyval \<Rightarrow> pyerr + unit"
  and assert_fields :: "(field \<times> transformer) list \<Rightarrow> pyval \<Rightarrow> pyerr + unit"
where
  "assert_type (DataclassTransformer _ transformers) t v =
     (if \<not> is_dataclass_instance v
      then Inl (TypeTransformerFailedError, ''Object must be a dataclass'')
      else assert_fields transformers v)"
| "assert_type (FlytePickleTransformer _) t v = Inr ()"
| "assert_type (SimpleTransformer _ _ _ _ _) t v = base_assert_type t v"
| "assert_type (RestrictedTypeTransformer _ _) t v = base_assert_type t v"
| "assert_type ProtobufTransformer t v = base_assert_type t v"
| "assert_type ListTransformer t v = base_assert_type t v"
| "assert_type UnionTransformer t v = base_assert_type t v"
| "assert_type DictTransformer t v = base_assert_type t v"
| "assert_type TextIOTransformer t v = base_assert_type t v"
| "assert_type BinaryIOTransformer t v = base_assert_type t v"
| "assert_type EnumTransformer t v = base_assert_type t v"
| "assert_fields [] v = Inr ()"
| "assert_fields ((f, transformer) # rest) v =
     (case getattr v (field_name f) of
        Inl e \<Rightarrow> Inl e
      | Inr sub_val \<Rightarrow>
          (case assert_type transformer (field_type f) sub_val of
             Inl e \<Rightarrow> Inl e
           | Inr _ \<Rightarrow> assert_fields rest v))"

text \<open>
  The file access of the context: a random path is a prefix and a counter; local paths
  and remote ones differ in the prefix. \<^verbatim>\<open>cloudpickle\<close> stores a value and returns it.
\<close>

definition new_path :: "string \<Rightarrow> string run" where
  "new_path prefix s =
     (Inr (prefix @ replicate (paths_issued s) (CHR ''x'')),
      s\<lparr>paths_issued := Suc (paths_issued s)\<rparr>)"

definition local_prefix :: string where "local_prefix = ''/tmp/flyte/''"
definition remote_prefix :: string where "remote_prefix = ''s3://flyte/''"

definition is_remote :: "string \<Rightarrow> bool" where
  "is_remote path = (take 5 path = ''s3://'')"

definition write_file :: "string \<Rightarrow> pyval \<Rightarrow> unit run" where
  "write_file path v s = (Inr (), s\<lparr>storage := dict_set (storage s) path v\<rparr>)"

definition read_file :: "string \<Rightarrow> pyval run" where
  "read_file path s =
     (case map_of (storage s) path of
        None \<Rightarrow> (Inl (OSError, ''No such file or directory''), s)
      | Some v \<Rightarrow> (Inr v, s))"

definition copy_data :: "string \<Rightarrow> string \<Rightarrow> unit run" where
  "copy_data src dst = and_then (read_file src) (\<lambda>v. write_file dst v)"

text \<open>What \<^verbatim>\<open>json.dumps\<close> accepts; the struct it is parsed into is kept as the value.\<close>

fun json_key :: "pyval \<Rightarrow> bool" where
  "json_key (VStr _) = True"
| "json_key (VInt _) = True"
| "json_key (VFloat _) = True"
| "json_key (VBool _) = True"
| "json_key VNone = True"
| "json_key _ = False"

fun jsonable :: "pyval \<Rightarrow> bool" where
  "jsonable (VInt _) = True"
| "jsonable (VFloat _) = True"
| "jsonable (VBool _) = True"
| "jsonable (VStr _) = True"
| "jsonable VNone = True"
| "jsonable (VList xs) = list_all jsonable xs"
| "jsonable (VDict kvs) = list_all (\<lambda>kv. json_key (fst kv) \<and> jsonable (snd kv)) kvs"
| "jsonable _ = False"

definition dict_to_generic_literal :: "pyval \<Rightarrow> literal run" where
  "dict_to_generic_literal v =
     (if jsonable v then ret (generic_literal v)
      else raise TypeError ''Object is not JSON serializable'')"

text \<open>The loop of \<^verbatim>\<open>TypeEngine.to_literal\<close> over the annotations, for the hash.\<close>

fun find_hash_method :: "annotation list \<Rightarrow> string option" where
  "find_hash_method [] = None"
| "find_hash_method (HashMethod h # _) = Some h"
| "find_hash_method (_ # xs) = find_hash_method xs"

text \<open>\<^verbatim>\<open>TypeEngine.to_literal\<close>, given the method \<^verbatim>\<open>to_literal\<close> of transformers.\<close>

definition engine_to_literal_with ::
  "(transformer \<Rightarrow> pyval \<Rightarrow> pytype \<Rightarrow> literal_type option \<Rightarrow> literal run)
     \<Rightarrow> pyval \<Rightarrow> pytype \<Rightarrow> literal_type option \<Rightarrow> literal run" where
  "engine_to_literal_with m_to_literal python_val python_type expected =
     (if python_val = VNone \<and> expected = None then lift (Inl none_has_no_attribute)
      else if python_val = VNone \<and> Option.bind expected union_type = None
      then raise TypeTransformerFailedError ''Python value cannot be None''
      else
        and_then (get_transformer python_type) (\<lambda>transformer.
        and_then (if type_assertions_enabled transformer
                  then lift (assert_type transformer python_type python_val)
                  else ret ()) (\<lambda>_.
        and_then (\<lambda>s. (Inr (map_option (\<lambda>h. hash_methods s h python_val)
                                (find_hash_method (annotations_of python_type))), s)) (\<lambda>hash.
        and_then (m_to_literal transformer python_val python_type expected) (\<lambda>lv.
          case hash of
            Some h \<Rightarrow> ret (set_hash (Some h) lv)
          | None \<Rightarrow> ret lv)))))"

text \<open>The exceptions the loop of \<^verbatim>\<open>UnionTransformer.to_literal\<close> catches.\<close>

definition union_encode_caught :: "pyerr \<Rightarrow> bool" where
  "union_encode_caught e =
     (\<exists>c \<in> set [TypeTransformerFailedError, AttributeError, ValueError, AssertionError].
        exc_isinstance (fst e) c)"

definition ambiguous_choice :: pyerr where
  "ambiguous_choice = (TypeError, ''Ambiguous choice of variant for union type'')"

text \<open>
  The loop of \<^verbatim>\<open>UnionTransformer.to_literal\<close> over the variants, with its three
  variables \<^verbatim>\<open>found_res\<close>, \<^verbatim>\<open>res\<close> and \<^verbatim>\<open>res_type\<close>. Each statement of the \<^verbatim>\<open>try\<close> block
  may raise; an exception that is caught goes on with the next variant and keeps what was
  assigned before it.
\<close>

fun union_to_literal_loop ::
  "(transformer \<Rightarrow> pyval \<Rightarrow> pytype \<Rightarrow> literal_type option \<Rightarrow> literal run)
     \<Rightarrow> (transformer \<Rightarrow> pytype \<Rightarrow> literal_type run)
     \<Rightarrow> pyval \<Rightarrow> literal_type option \<Rightarrow> pytype list
     \<Rightarrow> bool \<times> literal option \<times> literal_type option
     \<Rightarrow> (bool \<times> literal option \<times> literal_type option) run" where
  "union_to_literal_loop m_to_literal m_get_literal_type python_val expected []
     (found_res, res, res_type) s = (Inr (found_res, res, res_type), s)"
| "union_to_literal_loop m_to_literal m_get_literal_type python_val expected (t # ts)
     (found_res, res, res_type) s =
     (case get_transformer t s of
        (Inl e, s1) \<Rightarrow>
          if union_encode_caught e
          then union_to_literal_loop m_to_literal m_get_literal_type python_val expected ts
                 (found_res, res, res_type) s1
          else (Inl e, s1)
      | (Inr tr, s1) \<Rightarrow>
          (case m_to_literal tr python_val t expected s1 of
             (Inl e, s2) \<Rightarrow>
               if union_encode_caught e
               then union_to_literal_loop m_to_literal m_get_literal_type python_val expected ts
                      (found_res, res, res_type) s2
               else (Inl e, s2)
           | (Inr r, s2) \<Rightarrow>
               (case m_get_literal_type tr t s2 of
                  (Inl e, s3) \<Rightarrow>
                    if union_encode_caught e
                    then union_to_literal_loop m_to_literal m_get_literal_type python_val expected ts
                           (found_res, Some r, res_type) s3
                    else (Inl e, s3)
                | (Inr lt, s3) \<Rightarrow>
                    if found_res then (Inl ambiguous_choice, s3)
                    else union_to_literal_loop m_to_literal m_get_literal_type python_val expected ts
                           (True, Some r, Some (add_tag_to_type lt (name tr))) s3)))"

text \<open>\<^verbatim>\<open>UnionTransformer.to_literal\<close>\<close>

definition union_to_literal ::
  "(transformer \<Rightarrow> pyval \<Rightarrow> pytype \<Rightarrow> literal_type option \<Rightarrow> literal run)
     \<Rightarrow> (transformer \<Rightarrow> pytype \<Rightarrow> literal_type run)
     \<Rightarrow> pyval \<Rightarrow> pytype \<Rightarrow> literal_type option \<Rightarrow> literal run" where
  "union_to_literal m_to_literal m_get_literal_type python_val python_type expected =
     and_then (union_to_literal_loop m_to_literal m_get_literal_type python_val expected
                 (get_args (strip_annotated python_type)) (False, None, None))
       (\<lambda>(found_res, res, res_type).
          case (found_res, res, res_type) of
            (True, Some r, Some rt) \<Rightarrow> ret (union_literal r rt)
          | _ \<Rightarrow> raise TypeTransformerFailedError ''Cannot convert from value to union type'')"

text \<open>The comprehension and the loop of \<^verbatim>\<open>DataclassTransformer.to_literal\<close>.\<close>

fun parse_subtypes :: "(string \<times> metadata_value) list \<Rightarrow> pyerr + (string \<times> literal_type) list" where
  "parse_subtypes [] = Inr []"
| "parse_subtypes ((k, MetaType lt) # rest) =
     (case parse_subtypes rest of Inl e \<Rightarrow> Inl e | Inr xs \<Rightarrow> Inr ((k, lt) # xs))"
| "parse_subtypes ((k, MetaString _) # rest) =
     Inl (ParseError, ''Failed to parse LiteralType'')"

fun dataclass_field_literals ::
  "(transformer \<Rightarrow> pyval \<Rightarrow> pytype \<Rightarrow> literal_type option \<Rightarrow> literal run)
     \<Rightarrow> pyval \<Rightarrow> (string \<times> literal_type) list \<Rightarrow> (field \<times> transformer) list
     \<Rightarrow> ((string \<times> literal) list) run" where
  "dataclass_field_literals m_to_literal python_val subtypes [] = ret []"
| "dataclass_field_literals m_to_literal python_val subtypes ((f, transformer) # rest) =
     and_then (lift (getattr python_val (field_name f))) (\<lambda>sub_val.
     and_then (case map_of subtypes (field_name f) of
                 None \<Rightarrow> raise KeyError (field_name f)
               | Some st \<Rightarrow> m_to_literal transformer sub_val (field_type f) (Some st)) (\<lambda>literal.
     and_then (dataclass_field_literals m_to_literal python_val subtypes rest) (\<lambda>literals.
       ret ((field_name f, literal) # literals))))"

text \<open>The comprehension of \<^verbatim>\<open>ListTransformer.to_literal\<close> and the loop of
  \<^verbatim>\<open>DictTransformer.to_literal\<close>.\<close>

fun list_literals ::
  "(pyval \<Rightarrow> pytype \<Rightarrow> literal_type option \<Rightarrow> literal run)
     \<Rightarrow> pytype \<Rightarrow> literal_type option \<Rightarrow> pyval list \<Rightarrow> (literal list) run" where
  "list_literals engine_to_literal t expected [] = ret []"
| "list_literals engine_to_literal t expected (x # xs) =
     (case expected of
        None \<Rightarrow> lift (Inl none_has_no_attribute)
      | Some e \<Rightarrow>
          and_then (engine_to_literal x t (collection_type e)) (\<lambda>l.
          and_then (list_literals engine_to_literal t expected xs) (\<lambda>ls. ret (l # ls))))"

fun dict_literals ::
  "(pyval \<Rightarrow> pytype \<Rightarrow> literal_type option \<Rightarrow> literal run)
     \<Rightarrow> pytype \<Rightarrow> literal_type option \<Rightarrow> (pyval \<times> pyval) list
     \<Rightarrow> (string \<times> literal) list \<Rightarrow> ((string \<times> literal) list) run" where
  "dict_literals engine_to_literal python_type expected [] lit_map = ret lit_map"
| "dict_literals engine_to_literal python_type expected ((k, v) # items) lit_map =
     (case k of
        VStr key \<Rightarrow>
          and_then (lift (get_dict_types python_type)) (\<lambda>tp.
          and_then (case tp of
                      None \<Rightarrow> ret TNone
                    | Some [k_type, v_type] \<Rightarrow> ret v_type
                    | Some _ \<Rightarrow> raise ValueError ''wrong number of values to unpack'') (\<lambda>v_type.
          and_then (case expected of
                      None \<Rightarrow> lift (Inl none_has_no_attribute)
                    | Some e \<Rightarrow> engine_to_literal v v_type (map_value_type e)) (\<lambda>l.
            dict_literals engine_to_literal python_type expected items (dict_set lit_map key l))))
      | _ \<Rightarrow> raise ValueError ''Flyte MapType expects all keys to be strings'')"

definition simple_type_mismatch :: pyerr where
  "simple_type_mismatch =
     (TypeTransformerFailedError, ''Expected value of the type of the transformer'')"

text \<open>The method \<^verbatim>\<open>to_literal\<close> of each transformer class.\<close>

fun to_literal_body ::
  "(transformer \<Rightarrow> pyval \<Rightarrow> pytype \<Rightarrow> literal_type option \<Rightarrow> literal run)
     \<Rightarrow> (transformer \<Rightarrow> pytype \<Rightarrow> literal_type run)
     \<Rightarrow> transformer \<Rightarrow> pyval \<Rightarrow> pytype \<Rightarrow> literal_type option \<Rightarrow> literal run" where
  "to_literal_body self m_get_literal_type (SimpleTransformer _ ty _ to_literal_transformer _)
     python_val python_type expected =
     (if type_of python_val \<noteq> ty
      then lift (Inl simple_type_mismatch)
      else ret (to_literal_transformer python_val))"
| "to_literal_body self m_get_literal_type (RestrictedTypeTransformer _ _)
     python_val python_type expected =
     raise RestrictedTypeError ''Transformer for type is restricted currently''"
| "to_literal_body self m_get_literal_type (DataclassTransformer _ transformers)
     python_val python_type expected =
     (case Option.bind expected metadata of
        None \<Rightarrow> lift (Inl none_has_no_attribute)
      | Some md \<Rightarrow>
          and_then (lift (parse_subtypes md)) (\<lambda>subtypes.
          and_then (dataclass_field_literals self python_val subtypes transformers) (\<lambda>literals.
            ret (map_literal literals))))"
| "to_literal_body self m_get_literal_type ProtobufTransformer python_val python_type expected =
     (case python_val of
        VInstance n bases attrs \<Rightarrow>
          if issubclass (TClass n bases) TMessage
          then ret (generic_literal (VDict (map (\<lambda>(k, v). (VStr k, v)) attrs)))
          else raise TypeTransformerFailedError ''Failed to convert to generic protobuf struct''
      | _ \<Rightarrow> raise TypeTransformerFailedError ''Failed to convert to generic protobuf struct'')"
| "to_literal_body self m_get_literal_type (FlytePickleTransformer _)
     python_val python_type expected =
     and_then (new_path local_prefix) (\<lambda>local_dir.
     and_then (new_path local_prefix) (\<lambda>local_path.
     and_then (write_file local_path python_val) (\<lambda>_.
     and_then (new_path remote_prefix) (\<lambda>remote_path.
     and_then (copy_data local_path remote_path) (\<lambda>_.
       ret (blob_literal (Blob (BlobType python_pickle_format SINGLE) remote_path)))))))"
| "to_literal_body self m_get_literal_type ListTransformer python_val python_type expected =
     (case python_val of
        VList xs \<Rightarrow>
          and_then (lift (get_sub_type python_type)) (\<lambda>t.
          and_then (list_literals (engine_to_literal_with self) t expected xs) (\<lambda>lit_list.
            ret (collection_literal lit_list)))
      | _ \<Rightarrow> raise TypeTransformerFailedError ''Expected a list'')"
| "to_literal_body self m_get_literal_type UnionTransformer python_val python_type expected =
     union_to_literal self m_get_literal_type python_val python_type expected"
| "to_literal_body self m_get_literal_type DictTransformer python_val python_type expected =
     (case python_val of
        VDict items \<Rightarrow>
          if Option.bind expected simple = Some STRUCT then dict_to_generic_literal python_val
          else
            and_then (dict_literals (engine_to_literal_with self) python_type expected items [])
              (\<lambda>lit_map. ret (map_literal lit_map))
      | _ \<Rightarrow> raise TypeTransformerFailedError ''Expected a dict'')"
| "to_literal_body self m_get_literal_type TextIOTransformer python_val python_type expected =
     raise NotImplementedError ''Implement handle for TextIO''"
| "to_literal_body self m_get_literal_type BinaryIOTransformer python_val python_type expected =
     raise NotImplementedError ''Implement handle for TextIO''"
| "to_literal_body self m_get_literal_type EnumTransformer python_val python_type expected =
     (case python_val of
        VEnum _ _ _ (VStr x) \<Rightarrow>
          ret (primitive_literal (Primitive None None (Some x) None None None))
      | VEnum _ _ _ _ \<Rightarrow> raise TypeTransformerFailedError ''Only string-valued enums are supportedd''
      | _ \<Rightarrow> raise TypeTransformerFailedError ''Expected an enum'')"

primrec to_literal ::
  "nat \<Rightarrow> transformer \<Rightarrow> pyval \<Rightarrow> pytype \<Rightarrow> literal_type option \<Rightarrow> literal run" where
  "to_literal 0 = (\<lambda>transformer python_val python_type expected. lift (Inl recursion_error))"
| "to_literal (Suc depth) = to_literal_body (to_literal depth) (get_literal_type depth)"

definition engine_to_literal ::
  "nat \<Rightarrow> pyval \<Rightarrow> pytype \<Rightarrow> literal_type option \<Rightarrow> literal run" where
  "engine_to_literal depth = engine_to_literal_with (to_literal depth)"

section \<open>Decoding: literals to native values\<close>

text \<open>\<^verbatim>\<open>TypeEngine.to_python_value\<close>, given the method \<^verbatim>\<open>to_python_value\<close> of transformers.\<close>

definition engine_to_python_value_with ::
  "(transformer \<Rightarrow> literal \<Rightarrow> pytype \<Rightarrow> pyval run) \<Rightarrow> literal \<Rightarrow> pytype \<Rightarrow> pyval run" where
  "engine_to_python_value_with m_to_python_value lv expected_python_type =
     and_then (get_transformer expected_python_type) (\<lambda>transformer.
       m_to_python_value transformer lv expected_python_type)"

text \<open>
  Calling a dataclass with keyword arguments: every field takes its argument, else its
  default; a field with neither, or an argument that names no field, is a \<^verbatim>\<open>TypeError\<close>.
  Only dataclasses are called this way by the engine.
\<close>

fun construct_fields :: "field list \<Rightarrow> (string \<times> pyval) list \<Rightarrow> pyerr + (string \<times> pyval) list" where
  "construct_fields [] kwargs = Inr []"
| "construct_fields (f # fs) kwargs =
     (case (case map_of kwargs (field_name f) of Some v \<Rightarrow> Some v | None \<Rightarrow> field_default f) of
        None \<Rightarrow> Inl (TypeError, ''__init__() missing required argument'')
      | Some v \<Rightarrow>
          (case construct_fields fs kwargs of
             Inl e \<Rightarrow> Inl e
           | Inr rest \<Rightarrow> Inr ((field_name f, v) # rest)))"

definition construct :: "pytype \<Rightarrow> (string \<times> pyval) list \<Rightarrow> pyerr + pyval" where
  "construct t kwargs =
     (case strip_annotated t of
        TDataclass n fs \<Rightarrow>
          if \<exists>k \<in> set (map fst kwargs). k \<notin> set (map field_name fs)
          then Inl (TypeError, ''__init__() got an unexpected keyword argument'')
          else
            (case construct_fields fs kwargs of
               Inl e \<Rightarrow> Inl e
             | Inr attrs \<Rightarrow> Inr (VDataclass n fs attrs))
      | _ \<Rightarrow> Inl (TypeError, ''not a dataclass''))"

text \<open>The loop of \<^verbatim>\<open>DataclassTransformer.to_python_value\<close>: a field that is not in the
  map of the literal is left out of \<^verbatim>\<open>fields\<close>.\<close>

fun dataclass_field_values ::
  "(transformer \<Rightarrow> literal \<Rightarrow> pytype \<Rightarrow> pyval run) \<Rightarrow> literal
     \<Rightarrow> (field \<times> transformer) list \<Rightarrow> ((string \<times> pyval) list) run" where
  "dataclass_field_values m_to_python_value lv [] = ret []"
| "dataclass_field_values m_to_python_value lv ((f, transformer) # rest) =
     (case map_literals lv of
        None \<Rightarrow> lift (Inl none_has_no_attribute)
      | Some lits \<Rightarrow>
          (case map_of lits (field_name f) of
             Some l \<Rightarrow>
               and_then (m_to_python_value transformer l (field_type f)) (\<lambda>v.
               and_then (dataclass_field_values m_to_python_value lv rest) (\<lambda>fields.
                 ret ((field_name f, v) # fields)))
           | None \<Rightarrow> dataclass_field_values m_to_python_value lv rest))"

text \<open>The exceptions the loop of \<^verbatim>\<open>UnionTransformer.to_python_value\<close> catches.\<close>

definition union_decode_caught :: "pyerr \<Rightarrow> bool" where
  "union_decode_caught e =
     (\<exists>c \<in> set [TypeTransformerFailedError, AttributeError]. exc_isinstance (fst e) c)"

definition ambiguous_decode :: pyerr where
  "ambiguous_decode = (TypeError, ''Ambiguous choice of variant for union type. Both transformers match'')"

definition cannot_convert_union :: pyerr where
  "cannot_convert_union = (TypeError, ''Cannot convert from literal to union type (using tag)'')"

text \<open>
  The loop of \<^verbatim>\<open>UnionTransformer.to_python_value\<close> over the variants, with
  \<^verbatim>\<open>found_res\<close>, \<^verbatim>\<open>res\<close> and \<^verbatim>\<open>res_tag\<close>. \<open>union_tag\<close> is the tag of the stored type,
  \<open>u\<close> is \<^verbatim>\<open>lv.scalar.union\<close>.
\<close>

fun union_to_python_value_loop ::
  "(transformer \<Rightarrow> literal \<Rightarrow> pytype \<Rightarrow> pyval run)
     \<Rightarrow> (transformer \<Rightarrow> pytype \<Rightarrow> literal_type run)
     \<Rightarrow> literal \<Rightarrow> string option \<Rightarrow> union_value option \<Rightarrow> pytype list
     \<Rightarrow> bool \<times> pyval option \<times> string option
     \<Rightarrow> (bool \<times> pyval option \<times> string option) run" where
  "union_to_python_value_loop m_to_python_value m_get_literal_type lv union_tag u []
     (found_res, res, res_tag) s = (Inr (found_res, res, res_tag), s)"
| "union_to_python_value_loop m_to_python_value m_get_literal_type lv union_tag u (v # vs)
     (found_res, res, res_tag) s =
     (case get_transformer v s of
        (Inl e, s1) \<Rightarrow>
          if union_decode_caught e
          then union_to_python_value_loop m_to_python_value m_get_literal_type lv union_tag u vs
                 (found_res, res, res_tag) s1
          else (Inl e, s1)
      | (Inr tr, s1) \<Rightarrow>
          (case union_tag of
             Some tag \<Rightarrow>
               if name tr \<noteq> tag \<and> \<not> is_dataclass v
               then union_to_python_value_loop m_to_python_value m_get_literal_type lv union_tag u
                      vs (found_res, res, res_tag) s1
               else
                 (case to_literal_type_with m_get_literal_type v s1 of
                    (Inl e, s2) \<Rightarrow>
                      if union_decode_caught e
                      then union_to_python_value_loop m_to_python_value m_get_literal_type lv
                             union_tag u vs (found_res, res, res_tag) s2
                      else (Inl e, s2)
                  | (Inr expected_literal_type, s2) \<Rightarrow>
                      (case u of
                         None \<Rightarrow>
                           union_to_python_value_loop m_to_python_value m_get_literal_type lv
                             union_tag u vs (found_res, res, res_tag) s2
                       | Some (Union inner stored) \<Rightarrow>
                           if \<not> are_types_castable stored expected_literal_type
                           then union_to_python_value_loop m_to_python_value m_get_literal_type lv
                                  union_tag u vs (found_res, res, res_tag) s2
                           else
                             (case m_to_python_value tr inner v s2 of
                                (Inl e, s3) \<Rightarrow>
                                  if union_decode_caught e
                                  then union_to_python_value_loop m_to_python_value
                                         m_get_literal_type lv union_tag u vs
                                         (found_res, res, res_tag) s3
                                  else (Inl e, s3)
                              | (Inr r, s3) \<Rightarrow>
                                  if found_res then (Inl ambiguous_decode, s3)
                                  else union_to_python_value_loop m_to_python_value
                                         m_get_literal_type lv union_tag u vs
                                         (True, Some r, Some (name tr)) s3)))
           | None \<Rightarrow>
               (case m_to_python_value tr lv v s1 of
                  (Inl e, s2) \<Rightarrow>
                    if union_decode_caught e
                    then union_to_python_value_loop m_to_python_value m_get_literal_type lv
                           union_tag u vs (found_res, res, res_tag) s2
                    else (Inl e, s2)
                | (Inr r, s2) \<Rightarrow>
                    if found_res then (Inl ambiguous_decode, s2)
                    else union_to_python_value_loop m_to_python_value m_get_literal_type lv
                           union_tag u vs (True, Some r, Some (name tr)) s2)))"

text \<open>\<^verbatim>\<open>lv.scalar.union\<close> when \<^verbatim>\<open>lv.scalar\<close> is set, and the tag of its stored type.\<close>

definition union_of_literal :: "literal \<Rightarrow> union_value option" where
  "union_of_literal lv = Option.bind (scalar lv) union_of"

definition union_tag_of :: "literal \<Rightarrow> string option" where
  "union_tag_of lv = Option.bind (union_of_literal lv) (\<lambda>u. structure_tag (stored_type u))"

text \<open>\<^verbatim>\<open>UnionTransformer.to_python_value\<close>\<close>

definition union_to_python_value ::
  "(transformer \<Rightarrow> literal \<Rightarrow> pytype \<Rightarrow> pyval run)
     \<Rightarrow> (transformer \<Rightarrow> pytype \<Rightarrow> literal_type run)
     \<Rightarrow> literal \<Rightarrow> pytype \<Rightarrow> pyval run" where
  "union_to_python_value m_to_python_value m_get_literal_type lv expected_python_type =
     and_then (union_to_python_value_loop m_to_python_value m_get_literal_type lv
                 (union_tag_of lv) (union_of_literal lv)
                 (get_args (strip_annotated expected_python_type)) (False, None, None))
       (\<lambda>(found_res, res, res_tag).
          case (found_res, res) of
            (True, Some r) \<Rightarrow> ret r
          | _ \<Rightarrow> lift (Inl cannot_convert_union))"

text \<open>The comprehension of \<^verbatim>\<open>ListTransformer.to_python_value\<close> and the loop of
  \<^verbatim>\<open>DictTransformer.to_python_value\<close>.\<close>

fun list_values ::
  "(literal \<Rightarrow> pytype \<Rightarrow> pyval run) \<Rightarrow> pytype \<Rightarrow> literal list \<Rightarrow> (pyval list) run" where
  "list_values engine_to_python_value st [] = ret []"
| "list_values engine_to_python_value st (x # xs) =
     and_then (engine_to_python_value x st) (\<lambda>v.
     and_then (list_values engine_to_python_value st xs) (\<lambda>vs. ret (v # vs)))"

fun dict_values ::
  "(literal \<Rightarrow> pytype \<Rightarrow> pyval run) \<Rightarrow> pytype list \<Rightarrow> (string \<times> literal) list
     \<Rightarrow> (pyval \<times> pyval) list \<Rightarrow> ((pyval \<times> pyval) list) run" where
  "dict_values engine_to_python_value tp [] py_map = ret py_map"
| "dict_values engine_to_python_value tp ((k, v) # items) py_map =
     (case tp of
        _ # v_type # _ \<Rightarrow>
          and_then (engine_to_python_value v v_type) (\<lambda>x.
            dict_values engine_to_python_value tp items (dict_set py_map (VStr k) x))
      | _ \<Rightarrow> raise IndexError ''tuple index out of range'')"

text \<open>Reading \<^verbatim>\<open>lv.scalar.blob.uri\<close>.\<close>

definition blob_uri_attr :: "literal \<Rightarrow> pyerr + string" where
  "blob_uri_attr lv =
     (case scalar_attr lv of
        Inl e \<Rightarrow> Inl e
      | Inr sc \<Rightarrow> (case blob_of sc of None \<Rightarrow> Inl none_has_no_attribute | Some b \<Rightarrow> Inr (uri b)))"

text \<open>Calling an enum class with a value looks the member up.\<close>

definition enum_lookup :: "pytype \<Rightarrow> pyval \<Rightarrow> pyerr + pyval" where
  "enum_lookup t x =
     (case t of
        TEnumClass n members \<Rightarrow>
          (case find (\<lambda>m. snd m = x) members of
             Some m \<Rightarrow> Inr (VEnum n members (fst m) (snd m))
           | None \<Rightarrow> Inl (ValueError, ''is not a valid value of the enum''))
      | _ \<Rightarrow> Inl (TypeError, ''not an enum class''))"

fun message_fields :: "(pyval \<times> pyval) list \<Rightarrow> pyerr + (string \<times> pyval) list" where
  "message_fields [] = Inr []"
| "message_fields ((VStr k, v) # rest) =
     (case message_fields rest of Inl e \<Rightarrow> Inl e | Inr xs \<Rightarrow> Inr ((k, v) # xs))"
| "message_fields _ = Inl (ParseError, ''Failed to parse message'')"

text \<open>The method \<^verbatim>\<open>to_python_value\<close> of each transformer class.\<close>

fun to_python_value_body ::
  "(transformer \<Rightarrow> literal \<Rightarrow> pytype \<Rightarrow> pyval run)
     \<Rightarrow> (transformer \<Rightarrow> pytype \<Rightarrow> literal_type run)
     \<Rightarrow> transformer \<Rightarrow> literal \<Rightarrow> pytype \<Rightarrow> pyval run" where
  "to_python_value_body self m_get_literal_type (SimpleTransformer _ ty _ _ from_literal_transformer)
     lv expected_python_type =
     (if strip_annotated expected_python_type \<noteq> ty
      then raise TypeTransformerFailedError ''Cannot convert to type, only the type of the transformer is supported''
      else
        (case from_literal_transformer lv of
           Inl e \<Rightarrow>
             if exc_isinstance (fst e) AttributeError
             then raise TypeTransformerFailedError ''Cannot convert literal''
             else lift (Inl e)
         | Inr res \<Rightarrow>
             if type_of res \<noteq> ty
             then raise TypeTransformerFailedError ''Cannot convert literal to the type''
             else ret res))"
| "to_python_value_body self m_get_literal_type (RestrictedTypeTransformer _ _)
     lv expected_python_type =
     raise RestrictedTypeError ''Transformer for type is restricted currently''"
| "to_python_value_body self m_get_literal_type (DataclassTransformer _ transformers)
     lv expected_python_type =
     and_then (dataclass_field_values self lv transformers) (\<lambda>fields.
       lift (construct expected_python_type fields))"
| "to_python_value_body self m_get_literal_type ProtobufTransformer lv expected_python_type =
     (case Option.bind (scalar lv) generic of
        None \<Rightarrow> raise TypeTransformerFailedError ''Can only convert a generic literal to a Protobuf''
      | Some (VDict kvs) \<Rightarrow>
          (case expected_python_type of
             TClass n bases \<Rightarrow>
               and_then (lift (message_fields kvs)) (\<lambda>attrs. ret (VInstance n bases attrs))
           | _ \<Rightarrow> raise TypeError ''not a message class'')
      | Some _ \<Rightarrow> raise ParseError ''Failed to parse message'')"
| "to_python_value_body self m_get_literal_type (FlytePickleTransformer _)
     lv expected_python_type =
     and_then (lift (blob_uri_attr lv)) (\<lambda>uri.
       if is_remote uri then
         and_then (new_path local_prefix) (\<lambda>local_path.
         and_then (copy_data uri local_path) (\<lambda>_. read_file local_path))
       else read_file uri)"
| "to_python_value_body self m_get_literal_type ListTransformer lv expected_python_type =
     (case collection lv of
        None \<Rightarrow> raise TypeTransformerFailedError []
      | Some lits \<Rightarrow>
          and_then (lift (get_sub_type expected_python_type)) (\<lambda>st.
          and_then (list_values (engine_to_python_value_with self) st lits) (\<lambda>vs.
            ret (VList vs))))"
| "to_python_value_body self m_get_literal_type UnionTransformer lv expected_python_type =
     union_to_python_value self m_get_literal_type lv expected_python_type"
| "to_python_value_body self m_get_literal_type DictTransformer lv expected_python_type =
     (case map_literals lv of
        Some lits \<Rightarrow>
          and_then (lift (get_dict_types expected_python_type)) (\<lambda>tp.
            case tp of
              None \<Rightarrow> raise TypeError ''TypeMismatch: Cannot convert to python dictionary from Flyte Literal Dictionary''
            | Some [] \<Rightarrow> raise IndexError ''tuple index out of range''
            | Some (k # rest) \<Rightarrow>
                if k \<noteq> TStr
                then raise TypeError ''TypeMismatch. Destination dictionary does not accept str key''
                else
                  and_then (dict_values (engine_to_python_value_with self) (k # rest) lits [])
                    (\<lambda>py_map. ret (VDict py_map)))
      | None \<Rightarrow>
          (case Option.bind (scalar lv) generic of
             Some g \<Rightarrow> ret g
           | None \<Rightarrow> raise TypeTransformerFailedError ''Cannot convert from literal to dict''))"
| "to_python_value_body self m_get_literal_type TextIOTransformer lv expected_python_type =
     and_then (new_path local_prefix) (\<lambda>local_path.
     and_then (lift (blob_uri_attr lv)) (\<lambda>uri.
     and_then (copy_data uri local_path) (\<lambda>_. ret (VFile local_path))))"
| "to_python_value_body self m_get_literal_type BinaryIOTransformer lv expected_python_type =
     and_then (new_path local_prefix) (\<lambda>local_path.
     and_then (lift (blob_uri_attr lv)) (\<lambda>uri.
     and_then (copy_data uri local_path) (\<lambda>_. ret (VFile local_path))))"
| "to_python_value_body self m_get_literal_type EnumTransformer lv expected_python_type =
     and_then (lift (primitive_attr lv)) (\<lambda>p.
       lift (enum_lookup expected_python_type (opt_val VStr (string_value p))))"

primrec to_python_value :: "nat \<Rightarrow> transformer \<Rightarrow> literal \<Rightarrow> pytype \<Rightarrow> pyval run" where
  "to_python_value 0 = (\<lambda>transformer lv expected_python_type. lift (Inl recursion_error))"
| "to_python_value (Suc depth) =
     to_python_value_body (to_python_value depth) (get_literal_type depth)"

definition engine_to_python_value :: "nat \<Rightarrow> literal \<Rightarrow> pytype \<Rightarrow> pyval run" where
  "engine_to_python_value depth = engine_to_python_value_with (to_python_value depth)"

section \<open>Guessing native types\<close>

text \<open>
  The loop of \<^verbatim>\<open>TypeEngine.guess_python_type\<close> over the transformers of the registry:
  the first that does not raise \<^verbatim>\<open>ValueError\<close> answers.
\<close>

fun guess_loop ::
  "(transformer \<Rightarrow> literal_type \<Rightarrow> pytype run) \<Rightarrow> literal_type
     \<Rightarrow> (pytype \<times> transformer) list \<Rightarrow> pytype run" where
  "guess_loop m_guess_python_type flyte_type [] = raise ValueError ''No type found''"
| "guess_loop m_guess_python_type flyte_type ((_, transformer) # rest) =
     try_except (m_guess_python_type transformer flyte_type) [ValueError]
       (\<lambda>e. guess_loop m_guess_python_type flyte_type rest)"

definition engine_guess_python_type_with ::
  "(transformer \<Rightarrow> literal_type \<Rightarrow> pytype run) \<Rightarrow> literal_type \<Rightarrow> pytype run" where
  "engine_guess_python_type_with m_guess_python_type flyte_type s =
     guess_loop m_guess_python_type flyte_type (registry s) s"

fun guess_all :: "(literal_type \<Rightarrow> pytype run) \<Rightarrow> literal_type list \<Rightarrow> (pytype list) run" where
  "guess_all engine_guess [] = ret []"
| "guess_all engine_guess (v # vs) =
     and_then (engine_guess v) (\<lambda>t.
     and_then (guess_all engine_guess vs) (\<lambda>ts. ret (t # ts)))"

definition cannot_reverse :: pyerr where
  "cannot_reverse = (ValueError, ''Transformer cannot reverse the literal type'')"

text \<open>Modelled from the spec: \<^verbatim>\<open>load_type_from_tag\<close> of \<^verbatim>\<open>flytekit.core.type_helpers\<close>
  is not among the sources; it gives the message class that the tag names.\<close>

definition load_type_from_tag :: "string \<Rightarrow> pytype" where
  "load_type_from_tag tag = TClass tag [TMessage]"

text \<open>The method \<^verbatim>\<open>guess_python_type\<close> of each transformer class; the classes that do
  not define it raise the \<^verbatim>\<open>ValueError\<close> of the base class.\<close>

fun guess_python_type_body ::
  "(transformer \<Rightarrow> literal_type \<Rightarrow> pytype run) \<Rightarrow> transformer \<Rightarrow> literal_type \<Rightarrow> pytype run"
where
  "guess_python_type_body self (SimpleTransformer _ ty lt _ _) literal_type =
     (if simple literal_type \<noteq> None \<and> simple literal_type = simple lt then ret ty
      else lift (Inl cannot_reverse))"
| "guess_python_type_body self (DataclassTransformer dt _) literal_type =
     (case structure_tag literal_type of
        None \<Rightarrow> lift (Inl none_has_no_attribute)
      | Some tag \<Rightarrow>
          if tag = tag_from_type dt then ret dt
          else raise ValueError ''Type tag does not match import path of dataclass'')"
| "guess_python_type_body self ProtobufTransformer literal_type =
     (case (simple literal_type, Option.bind (metadata literal_type) (\<lambda>m. map_of m ''pb_type'')) of
        (Some STRUCT, Some (MetaString tag)) \<Rightarrow>
          if tag \<noteq> [] then ret (load_type_from_tag tag) else lift (Inl cannot_reverse)
      | _ \<Rightarrow> lift (Inl cannot_reverse))"
| "guess_python_type_body self (FlytePickleTransformer t) literal_type =
     (if blob literal_type = Some (BlobType python_pickle_format SINGLE) then ret t
      else lift (Inl cannot_reverse))"
| "guess_python_type_body self ListTransformer literal_type =
     (case collection_type literal_type of
        Some ct \<Rightarrow>
          and_then (engine_guess_python_type_with self ct) (\<lambda>t. ret (TGeneric TList [t]))
      | None \<Rightarrow> lift (Inl cannot_reverse))"
| "guess_python_type_body self UnionTransformer literal_type =
     (case union_type literal_type of
        Some variants \<Rightarrow>
          and_then (guess_all (engine_guess_python_type_with self) variants) (\<lambda>ts.
            ret (TGeneric TUnion ts))
      | None \<Rightarrow> lift (Inl cannot_reverse))"
| "guess_python_type_body self DictTransformer literal_type =
     (case map_value_type literal_type of
        Some mvt \<Rightarrow>
          and_then (engine_guess_python_type_with self mvt) (\<lambda>mt.
            ret (TGeneric TDict [TStr, mt]))
      | None \<Rightarrow>
          if simple literal_type = Some STRUCT \<and> metadata literal_type = None then ret TDict
          else lift (Inl cannot_reverse))"
| "guess_python_type_body self (RestrictedTypeTransformer _ _) literal_type =
     raise ValueError ''By default, transformers do not translate from Flyte types back to Python types''"
| "guess_python_type_body self TextIOTransformer literal_type =
     raise ValueError ''By default, transformers do not translate from Flyte types back to Python types''"
| "guess_python_type_body self BinaryIOTransformer literal_type =
     raise ValueError ''By default, transformers do not translate from Flyte types back to Python types''"
| "guess_python_type_body self EnumTransformer literal_type =
     raise ValueError ''By default, transformers do not translate from Flyte types back to Python types''"

primrec guess_python_type :: "nat \<Rightarrow> transformer \<Rightarrow> literal_type \<Rightarrow> pytype run" where
  "guess_python_type 0 = (\<lambda>transformer literal_type. lift (Inl recursion_error))"
| "guess_python_type (Suc depth) = guess_python_type_body (guess_python_type depth)"

definition engine_guess_python_type :: "nat \<Rightarrow> literal_type \<Rightarrow> pytype run" where
  "engine_guess_python_type depth = engine_guess_python_type_with (guess_python_type depth)"

section \<open>The literals resolver\<close>

text \<open>
  The fields of a \<^verbatim>\<open>LiteralsResolver\<close>: the literals, the optional variable map (the
  literal type of each variable), the cache \<^verbatim>\<open>_native_values\<close> and the type hints.
\<close>

record resolver =
  literals :: "(string \<times> literal) list"
  variable_map :: "(string \<times> literal_type) list option"
  native_values :: "(string \<times> pyval) list"
  type_hints :: "(string \<times> pytype) list"

text \<open>\<^verbatim>\<open>LiteralsResolver.__init__\<close> and \<^verbatim>\<open>update_type_hints\<close>\<close>

definition new_resolver ::
  "(string \<times> literal) list \<Rightarrow> (string \<times> literal_type) list option \<Rightarrow> resolver" where
  "new_resolver lits vm =
     \<lparr>literals = lits, variable_map = vm, native_values = [], type_hints = []\<rparr>"

definition update_type_hints :: "(string \<times> pytype) list \<Rightarrow> resolver \<Rightarrow> resolver" where
  "update_type_hints hints r =
     r\<lparr>type_hints := fold (\<lambda>(k, t) d. dict_set d k t) hints (type_hints r)\<rparr>"

text \<open>
  The part of \<^verbatim>\<open>LiteralsResolver.get\<close> that settles \<^verbatim>\<open>as_type\<close>. In the last branch the
  source builds a \<^verbatim>\<open>ValueError\<close> and does not raise it: \<^verbatim>\<open>as_type\<close> stays \<^verbatim>\<open>None\<close>.
\<close>

definition resolve_as_type ::
  "(literal_type \<Rightarrow> pytype run) \<Rightarrow> resolver \<Rightarrow> string \<Rightarrow> pytype option \<Rightarrow> (pytype option) run"
where
  "resolve_as_type engine_guess r attr as_type =
     (case as_type of
        Some t \<Rightarrow> ret (Some t)
      | None \<Rightarrow>
          (case map_of (type_hints r) attr of
             Some hint \<Rightarrow> ret (Some hint)
           | None \<Rightarrow>
               (case Option.bind (variable_map r) (\<lambda>vm. map_of vm attr) of
                  Some var_type \<Rightarrow> and_then (engine_guess var_type) (\<lambda>t. ret (Some t))
                | None \<Rightarrow> ret None)))"

text \<open>
  \<^verbatim>\<open>LiteralsResolver.get\<close>, given \<^verbatim>\<open>TypeEngine.to_python_value\<close> and
  \<^verbatim>\<open>TypeEngine.guess_python_type\<close>. An \<^verbatim>\<open>as_type\<close> that is still \<^verbatim>\<open>None\<close> is passed on
  as the expected type.
\<close>

definition resolver_get_with ::
  "(literal \<Rightarrow> pytype \<Rightarrow> pyval run) \<Rightarrow> (literal_type \<Rightarrow> pytype run)
     \<Rightarrow> string \<Rightarrow> pytype option \<Rightarrow> resolver \<Rightarrow> engine \<Rightarrow> (pyerr + pyval) \<times> resolver \<times> engine"
where
  "resolver_get_with engine_decode engine_guess attr as_type r s =
     (case map_of (literals r) attr of
        None \<Rightarrow> (Inl (AttributeError, ''Attribute not found''), r, s)
      | Some lit \<Rightarrow>
          (case map_of (native_values r) attr of
             Some v \<Rightarrow> (Inr v, r, s)
           | None \<Rightarrow>
               (case resolve_as_type engine_guess r attr as_type s of
                  (Inl e, s1) \<Rightarrow> (Inl e, r, s1)
                | (Inr as_type', s1) \<Rightarrow>
                    (case engine_decode lit (case as_type' of Some t \<Rightarrow> t | None \<Rightarrow> TNone) s1 of
                       (Inl e, s2) \<Rightarrow> (Inl e, r, s2)
                     | (Inr val, s2) \<Rightarrow>
                         (Inr val, r\<lparr>native_values := dict_set (native_values r) attr val\<rparr>, s2)))))"


definition resolver_get ::
  "nat \<Rightarrow> string \<Rightarrow> pytype option \<Rightarrow> resolver \<Rightarrow> engine \<Rightarrow> (pyerr + pyval) \<times> resolver \<times> engine"
where
  "resolver_get depth =
     resolver_get_with (engine_to_python_value depth) (engine_guess_python_type depth)"


section \<open>The lookup: what can fail\<close>






section \<open>Castability: the union, enum and essence rules\<close>





text \<open>
  Claim C6. For an upstream type that the collection, map, structured-dataset and union
  rules do not cover: an upstream enum is castable to a downstream type whose simple kind
  is the string; and when the downstream type is not a union and the enum rule does not
  apply, the types are castable exactly when their essences are equal. The essence of a
  type is the type with metadata, tag and annotation removed.
\<close>

theorem castable_enum_and_essence:
  assumes "collection_type upstream = None" and "map_value_type upstream = None"
    and "structured_dataset_type upstream = None" and "union_type upstream = None"
  shows "(enum_type upstream \<noteq> None \<and> simple downstream = Some STRING \<longrightarrow>
            are_types_castable upstream downstream)
       \<and> (union_type downstream = None
            \<and> \<not> (enum_type upstream \<noteq> None \<and> simple downstream = Some STRING) \<longrightarrow>
            are_types_castable upstream downstream
              = (type_essence upstream = type_essence downstream))
       \<and> type_essence upstream
            = set_annotation None (set_structure None (set_metadata None upstream))"
  using assms by (cases upstream) (auto simp add: castable_no_upstream_rule type_essence_def)

text \<open>
  Claim C6, witness: an enum is castable to the string type, an integer type with a tag
  to the integer type, and the integer type not to the string type.
\<close>

theorem castable_enum_and_essence_witness:
  "are_types_castable (enum_lt [VStr ''A'', VStr ''B'']) (simple_lt STRING)
   \<and> are_types_castable (add_tag_to_type (simple_lt INTEGER) ''int'') (simple_lt INTEGER)
   \<and> \<not> are_types_castable (simple_lt INTEGER) (simple_lt STRING)"
  using castable_enum_and_essence[of "enum_lt [VStr ''A'', VStr ''B'']" "simple_lt STRING"]
    castable_enum_and_essence[of "add_tag_to_type (simple_lt INTEGER) ''int''" "simple_lt INTEGER"]
    castable_enum_and_essence[of "simple_lt INTEGER" "simple_lt STRING"]
  by (simp add: enum_lt_def simple_lt_def add_tag_to_type_def type_essence_def)

section \<open>Simple transformers: the exact type check and the round trip\<close>

lemma get_transformer_registered:
  "map_of (registry s) (strip_annotated t) = Some tr \<Longrightarrow> get_transformer t s = (Inr tr, s)"
  by (subst get_transformer.simps) (simp add: Let_def)

lemma run_simps [simp]:
  "ret x s = (Inr x, s)" "raise e msg s = (Inl (e, msg), s)" "lift r s = (r, s)"
  by (simp_all add: ret_def raise_def lift_def)

lemmas simple_transformer_defs =
  int_transformer_def float_transformer_def bool_transformer_def str_transformer_def
  datetime_transformer_def timedelta_transformer_def none_transformer_def

lemma default_lookup:
  assumes "registry s = default_registry"
  shows "get_transformer TInt s = (Inr int_transformer, s)"
    "get_transformer TFloat s = (Inr float_transformer, s)"
    "get_transformer TBool s = (Inr bool_transformer, s)"
    "get_transformer TStr s = (Inr str_transformer, s)"
    "get_transformer TDatetime s = (Inr datetime_transformer, s)"
    "get_transformer TTimedelta s = (Inr timedelta_transformer, s)"
  using assms by (simp_all add: get_transformer_registered default_registry_def)

text \<open>
  Claim C10. \<^verbatim>\<open>SimpleTransformer.to_literal\<close> fails with
  \<^verbatim>\<open>TypeTransformerFailedError\<close> whenever the type of the value is not exactly the type
  the transformer was built with. The value \<^verbatim>\<open>True\<close> is an instance of \<^verbatim>\<open>int\<close> and
  passes \<^verbatim>\<open>assert_type\<close> of the transformer of \<^verbatim>\<open>int\<close>, and still
  \<^verbatim>\<open>TypeEngine.to_literal\<close> with \<^verbatim>\<open>python_type=int\<close> fails on it with that error.
\<close>

theorem simple_to_literal_requires_exact_type:
  "(type_of python_val \<noteq> ty \<longrightarrow>
      to_literal (Suc depth) (SimpleTransformer n ty lt enc dec) python_val python_type expected s
        = (Inl simple_type_mismatch, s))
   \<and> fst simple_type_mismatch = TypeTransformerFailedError
   \<and> isinstance (VBool True) TInt
   \<and> assert_type int_transformer TInt (VBool True) = Inr ()
   \<and> (registry s = default_registry \<longrightarrow>
        engine_to_literal (Suc depth) (VBool True) TInt (Some (simple_lt INTEGER)) s
          = (Inl simple_type_mismatch, s))"
proof (intro conjI impI)
  show "isinstance (VBool True) TInt"
    by (simp add: isinstance_def issubclass_def)
  then show "assert_type int_transformer TInt (VBool True) = Inr ()"
    by (simp add: int_transformer_def base_assert_type_def valid_classinfo_def)
  show "fst simple_type_mismatch = TypeTransformerFailedError"
    by (simp add: simple_type_mismatch_def)
  assume r: "registry s = default_registry"
  then have g: "get_transformer TInt s = (Inr int_transformer, s)"
    by (rule default_lookup)
  show "engine_to_literal (Suc depth) (VBool True) TInt (Some (simple_lt INTEGER)) s
          = (Inl simple_type_mismatch, s)"
    by (simp add: engine_to_literal_def engine_to_literal_with_def g type_assertions_enabled_def
        int_transformer_def base_assert_type_def valid_classinfo_def isinstance_def issubclass_def
        simple_lt_def and_then_def)
qed simp

text \<open>
  Claim C10, witness: the transformer of \<^verbatim>\<open>bool\<close> refuses the integer 1, and the engine
  refuses \<^verbatim>\<open>True\<close> for \<^verbatim>\<open>int\<close>.
\<close>

theorem simple_to_literal_requires_exact_type_witness:
  "to_literal (Suc 0) bool_transformer (VInt 1) TBool None initial_engine
     = (Inl simple_type_mismatch, initial_engine)
   \<and> engine_to_literal (Suc 0) (VBool True) TInt (Some (simple_lt INTEGER)) initial_engine
     = (Inl simple_type_mismatch, initial_engine)"
  using simple_to_literal_requires_exact_type[of "VInt 1" TBool 0 "''bool''" "simple_lt BOOLEAN"
      _ _ TBool None initial_engine]
  by (simp add: bool_transformer_def)

subsection \<open>Equality of scalars\<close>

text \<open>
  Python's \<^verbatim>\<open>==\<close> on two scalars of the same type: equality of the values, except on
  floats, where a NaN is equal to nothing, itself included, and the two zeros are equal.
  \<open>None\<close> where the operands are of different types or not scalars.
\<close>

definition float_is_nan :: "pyfloat \<Rightarrow> bool" where
  "float_is_nan f = (drop_bit 52 f AND 0x7FF = 0x7FF \<and> f AND 0xFFFFFFFFFFFFF \<noteq> 0)"

definition float_eq :: "pyfloat \<Rightarrow> pyfloat \<Rightarrow> bool" where
  "float_eq a b =
     (\<not> float_is_nan a \<and> \<not> float_is_nan b
      \<and> (a = b \<or> (a AND 0x7FFFFFFFFFFFFFFF = 0 \<and> b AND 0x7FFFFFFFFFFFFFFF = 0)))"

definition py_eq :: "pyval \<Rightarrow> pyval \<Rightarrow> bool option" where
  "py_eq a b =
     (case a of
        VInt x \<Rightarrow> (case b of VInt y \<Rightarrow> Some (x = y) | _ \<Rightarrow> None)
      | VFloat x \<Rightarrow> (case b of VFloat y \<Rightarrow> Some (float_eq x y) | _ \<Rightarrow> None)
      | VBool x \<Rightarrow> (case b of VBool y \<Rightarrow> Some (x = y) | _ \<Rightarrow> None)
      | VStr x \<Rightarrow> (case b of VStr y \<Rightarrow> Some (x = y) | _ \<Rightarrow> None)
      | VDatetime x \<Rightarrow> (case b of VDatetime y \<Rightarrow> Some (x = y) | _ \<Rightarrow> None)
      | VTimedelta x \<Rightarrow> (case b of VTimedelta y \<Rightarrow> Some (x = y) | _ \<Rightarrow> None)
      | VNone \<Rightarrow> (case b of VNone \<Rightarrow> Some True | _ \<Rightarrow> None)
      | _ \<Rightarrow> None)"

definition is_nan_value :: "pyval \<Rightarrow> bool" where
  "is_nan_value v = (case v of VFloat f \<Rightarrow> float_is_nan f | _ \<Rightarrow> False)"

text \<open>A quiet NaN, \<^verbatim>\<open>float("nan")\<close>.\<close>

definition nan :: pyval where
  "nan = VFloat 0x7FF8000000000000"

text \<open>\<^verbatim>\<open>TypeEngine.to_python_value(ctx, TypeEngine.to_literal(ctx, v, T,
  TypeEngine.to_literal_type(T)), T)\<close>\<close>

definition round_trip :: "nat \<Rightarrow> pyval \<Rightarrow> pytype \<Rightarrow> pyval run" where
  "round_trip depth v T =
     and_then (to_literal_type depth T) (\<lambda>lt.
     and_then (engine_to_literal depth v T (Some lt)) (\<lambda>lv.
       engine_to_python_value depth lv T))"

lemmas round_trip_defs =
  round_trip_def to_literal_type_def to_literal_type_with_def
  engine_to_literal_def engine_to_literal_with_def engine_to_python_value_def
  engine_to_python_value_with_def type_assertions_enabled_def
  base_assert_type_def valid_classinfo_def isinstance_def issubclass_def
  primitive_literal_def scalar_literal_def read_primitive_def primitive_attr_def
  scalar_attr_def opt_val_def simple_lt_def and_then_def

lemma round_trip_int:
  "registry s = default_registry \<Longrightarrow> round_trip (Suc depth) (VInt i) TInt s = (Inr (VInt i), s)"
  by (simp add: default_lookup round_trip_defs int_transformer_def)

lemma round_trip_float:
  "registry s = default_registry \<Longrightarrow>
     round_trip (Suc depth) (VFloat f) TFloat s = (Inr (VFloat f), s)"
  by (simp add: default_lookup round_trip_defs float_transformer_def check_and_covert_float_def)

lemma round_trip_bool:
  "registry s = default_registry \<Longrightarrow> round_trip (Suc depth) (VBool b) TBool s = (Inr (VBool b), s)"
  by (simp add: default_lookup round_trip_defs bool_transformer_def)

lemma round_trip_str:
  "registry s = default_registry \<Longrightarrow> round_trip (Suc depth) (VStr x) TStr s = (Inr (VStr x), s)"
  by (simp add: default_lookup round_trip_defs str_transformer_def)

lemma round_trip_datetime:
  "registry s = default_registry \<Longrightarrow>
     round_trip (Suc depth) (VDatetime d) TDatetime s = (Inr (VDatetime d), s)"
  by (simp add: default_lookup round_trip_defs datetime_transformer_def)

lemma round_trip_timedelta:
  "registry s = default_registry \<Longrightarrow>
     round_trip (Suc depth) (VTimedelta d) TTimedelta s = (Inr (VTimedelta d), s)"
  by (simp add: default_lookup round_trip_defs timedelta_transformer_def)

lemma py_eq_self:
  "type_of v \<in> {TInt, TFloat, TBool, TStr, TDatetime, TTimedelta}
     \<Longrightarrow> py_eq v v = Some (\<not> is_nan_value v)"
  by (cases v) (auto simp: py_eq_def is_nan_value_def float_eq_def)

text \<open>
  Claim C1, as the code has it. For each of the six built-in scalar types \<open>T\<close> and each
  value \<open>v\<close> whose type is exactly \<open>T\<close>, with the registry of the built-ins, encoding and
  decoding gives back the very value \<open>v\<close>, and changes nothing in the engine. The result
  is therefore \<^verbatim>\<open>==\<close> to \<open>v\<close> exactly when \<open>v\<close> is \<^verbatim>\<open>==\<close> to itself, which every such
  value is but a float NaN.
\<close>

theorem simple_round_trip:
  assumes "T \<in> {TInt, TFloat, TBool, TStr, TDatetime, TTimedelta}"
    and "type_of v = T" and "registry s = default_registry"
  shows "round_trip (Suc depth) v T s = (Inr v, s) \<and> py_eq v v = Some (\<not> is_nan_value v)"
proof
  show "py_eq v v = Some (\<not> is_nan_value v)"
    using assms by (simp add: py_eq_self)
  show "round_trip (Suc depth) v T s = (Inr v, s)"
    using assms
    by (cases v)
      (auto simp: round_trip_int round_trip_float round_trip_bool round_trip_str
        round_trip_datetime round_trip_timedelta)
qed

text \<open>Claim C1, witness: the integer 7 round-trips and is equal to itself.\<close>

theorem simple_round_trip_witness:
  "round_trip (Suc 0) (VInt 7) TInt initial_engine = (Inr (VInt 7), initial_engine)
   \<and> py_eq (VInt 7) (VInt 7) = Some True"
  using simple_round_trip[of TInt "VInt 7" initial_engine 0]
  by (simp add: py_eq_def is_nan_value_def)

text \<open>
  Claim C1, counterexample: \<^verbatim>\<open>float("nan")\<close> is a value of type \<^verbatim>\<open>float\<close>; the round
  trip returns it, and it is not \<^verbatim>\<open>==\<close> to the value that went in.
\<close>

theorem round_trip_nan_counterexample:
  "fst (round_trip (Suc 0) nan TFloat initial_engine) = Inr nan \<and> py_eq nan nan = Some False"
  using round_trip_float[of initial_engine 0 "0x7FF8000000000000"]
  by (simp add: nan_def py_eq_def float_eq_def float_is_nan_def)

section \<open>The resolver: the cache and the missing type\<close>




definition int_literal :: "int \<Rightarrow> literal" where
  "int_literal i = primitive_literal (Primitive (Some i) None None None None None)"

definition str_literal :: "string \<Rightarrow> literal" where
  "str_literal x = primitive_literal (Primitive None None (Some x) None None None)"

text \<open>A resolver over the literal map \<^verbatim>\<open>{"x": 1}\<close>, with no variable map and no hints.\<close>

definition x_resolver :: resolver where
  "x_resolver = new_resolver [(''x'', int_literal 1)] None"

lemmas decode_int_defs =
  engine_to_python_value_def engine_to_python_value_with_def
  get_transformer_registered default_registry_def and_then_def
  int_literal_def primitive_literal_def scalar_literal_def read_primitive_def
  primitive_attr_def scalar_attr_def opt_val_def



definition unsupported_expected_type :: pyerr where
  "unsupported_expected_type = (TypeTransformerFailedError,
     ''Cannot convert to type, only the type of the transformer is supported'')"

text \<open>
  Claim C8, the code at the failing input. With no \<^verbatim>\<open>as_type\<close>, no hint and no
  variable map, \<^verbatim>\<open>get("x")\<close> does not stop with the \<^verbatim>\<open>ValueError\<close> that line 1325
  builds: it goes on to \<^verbatim>\<open>TypeEngine.to_python_value\<close> with \<^verbatim>\<open>None\<close> as the expected
  type, where the transformer registered for \<^verbatim>\<open>None\<close> refuses the type with
  \<^verbatim>\<open>TypeTransformerFailedError\<close>.
\<close>

theorem resolver_get_without_type_proceeds:
  "resolver_get (Suc 0) ''x'' None x_resolver initial_engine
     = (Inl unsupported_expected_type, x_resolver, initial_engine)"
  by (simp add: resolver_get_def resolver_get_with_def x_resolver_def new_resolver_def
      resolve_as_type_def none_transformer_def unsupported_expected_type_def decode_int_defs)

section \<open>Records: which fields the wire map must hold\<close>














section \<open>Unions: encoding\<close>












definition int_or_textio :: pytype where
  "int_or_textio = TGeneric TUnion [TInt, TTextIO]"

definition int_or_textio_type :: literal_type where
  "int_or_textio_type =
     union_lt [add_tag_to_type (simple_lt INTEGER) ''int'',
               add_tag_to_type (blob_lt (BlobType ''text/plain'' SINGLE)) ''TextIO'']"


lemmas union_eval_defs =
  round_trip_defs get_transformer.simps Let_def default_registry_def set_registry_def
  simple_transformer_defs union_to_literal_def union_encode_caught_def exc_isinstance_def
  int_literal_def simple_type_mismatch_def

lemma int_or_textio_literal_type:
  "to_literal_type (Suc (Suc 0)) int_or_textio initial_engine
     = (Inr int_or_textio_type, initial_engine)"
  by (simp add: int_or_textio_def int_or_textio_type_def union_eval_defs try_except_all_def
      add_tag_to_type_def union_lt_def blob_lt_def)



subsection \<open>A variant that fails after its encoding\<close>

text \<open>
  The loop assigns \<^verbatim>\<open>res\<close> before \<^verbatim>\<open>get_literal_type\<close> is called. For the member
  \<^verbatim>\<open>Mixed.B = "b"\<close> of an enum whose first value is not a string, against
  \<^verbatim>\<open>Union[Foo, Mixed]\<close>: the pickle transformer of \<^verbatim>\<open>Foo\<close> encodes the value, the enum
  transformer encodes it too, and \<^verbatim>\<open>EnumTransformer.get_literal_type\<close> then raises
  \<^verbatim>\<open>TypeTransformerFailedError\<close>, which is caught. The result holds the encoding of the
  second variant under the stored type of the first.
\<close>

definition mixed_enum :: pytype where
  "mixed_enum = TEnumClass ''Mixed'' [(''A'', VInt 1), (''B'', VStr ''b'')]"

definition mixed_b :: pyval where
  "mixed_b = VEnum ''Mixed'' [(''A'', VInt 1), (''B'', VStr ''b'')] ''B'' (VStr ''b'')"

definition foo_or_mixed :: pytype where
  "foo_or_mixed = TGeneric TUnion [TClass ''Foo'' [], mixed_enum]"

lemma union_to_literal_value_of_skipped_variant:
  "fst (to_literal (Suc (Suc 0)) UnionTransformer mixed_b foo_or_mixed None initial_engine)
     = Inr (union_literal (str_literal ''b'')
              (add_tag_to_type (blob_lt (BlobType python_pickle_format SINGLE)) ''Pickled[Foo]''))"
  by (simp add: mixed_b_def foo_or_mixed_def mixed_enum_def union_eval_defs step4_match_def
      new_path_def write_file_def copy_data_def read_file_def initial_engine_eq
      local_prefix_def remote_prefix_def str_literal_def)

section \<open>Unions: decoding\<close>

text \<open>
  What one pass of the \<^verbatim>\<open>try\<close> block of \<^verbatim>\<open>UnionTransformer.to_python_value\<close> comes
  to, for one variant: the variant is passed over without decoding (\<open>NotTried\<close>: its name
  differs from the tag, or the stored type is not castable to its literal type), an
  exception is caught (\<open>Failed\<close>), an exception is not caught (\<open>DecodeAborted\<close>), or
  the variant's transformer decodes a value (\<open>Decoded\<close>, with the name of the transformer).
\<close>

datatype decode_outcome = NotTried | Failed | DecodeAborted pyerr | Decoded pyval string







text \<open>
  Two dataclasses \<^verbatim>\<open>A\<close> (field \<^verbatim>\<open>a: int\<close>) and \<^verbatim>\<open>B\<close> (field \<^verbatim>\<open>b: str\<close>), the wire
  map \<^verbatim>\<open>{a: 1}\<close> as a union literal whose stored type is the literal type of \<^verbatim>\<open>A\<close> with
  the name of the transformer of \<^verbatim>\<open>A\<close> as its tag; and the string \<^verbatim>\<open>"hi"\<close> as a union
  literal with a given tag.
\<close>

definition a_record :: pytype where
  "a_record = TDataclass ''A'' [Field ''a'' TInt None]"




definition a_literal_type :: literal_type where
  "a_literal_type =
     set_structure (Some ''A'')
       (set_metadata (Some [(''a'', MetaType (simple_lt INTEGER))]) (map_lt empty_type))"



lemmas union_decode_eval_defs =
  round_trip_defs get_transformer.simps Let_def default_registry_def set_registry_def
  simple_transformer_defs union_to_python_value_def union_decode_caught_def exc_isinstance_def
  int_literal_def str_literal_def union_tag_of_def union_of_literal_def union_literal_def
  add_tag_to_type_def are_types_castable.simps type_essence_def tag_from_type_def map_lt_def
  empty_type_def map_literal_def construct_def cannot_convert_union_def

lemma a_literal_type_eq:
  "to_literal_type (Suc (Suc 0)) a_record initial_engine
     = (Inr a_literal_type, set_registry a_record
          (DataclassTransformer a_record [(Field ''a'' TInt None, int_transformer)]) initial_engine)"
  by (simp add: a_record_def a_literal_type_def union_decode_eval_defs)



end
